theory Spec2Isabelle
  imports Main "HOL-Library.Word"
begin

section \<open>Organization users: the HTTP handlers\<close>

text \<open>
  The handlers of \<^verbatim>\<open>pkg/api/org_users.go\<close> validate a request, call the SQL store, filter
  and annotate what the store returned, and shape a response. The store, the access-control
  service and a few package-level helpers are collaborators whose code is not part of the
  verified files: they are parameters of the model (records of functions), so every theorem
  about a handler holds for every store and every helper.
\<close>

subsection \<open>Data\<close>

type_synonym int64 = "64 word"
type_synonym go_int = "64 word" \<comment> \<open>Go's \<open>int\<close> on a 64-bit platform; read with \<open>sint\<close>\<close>
type_synonym RoleType = string

text \<open>
  Go errors. \<open>ErrOrgUserAlreadyAdded\<close> and \<open>ErrLastOrgAdmin\<close> are the sentinels the
  handlers test with \<^verbatim>\<open>errors.Is\<close>; \<open>ErrUserNotFound\<close> is the sentinel of package
  \<^verbatim>\<open>models\<close> for an unknown login or email, which no handler here tests for; any other
  failure (the database, the transport) is \<open>OtherError\<close>, and \<open>Wrap\<close> is an error that
  wraps another one (\<^verbatim>\<open>fmt.Errorf("...: %w", err)\<close>).
\<close>

datatype error =
    ErrOrgUserAlreadyAdded
  | ErrLastOrgAdmin
  | ErrUserNotFound
  | OtherError string
  | Wrap string error

text \<open>\<^verbatim>\<open>errors.Is(err, target)\<close>: \<open>err\<close> or an error it wraps is \<open>target\<close>.\<close>

fun errors_Is :: "error \<Rightarrow> error \<Rightarrow> bool" where
  "errors_Is (Wrap m e) target = (Wrap m e = target \<or> errors_Is e target)"
| "errors_Is e target = (e = target)"

text \<open>
  Modelled from the spec: \<^verbatim>\<open>RoleType.IsValid\<close> of package \<^verbatim>\<open>models\<close>, which is not among
  the verified files. The spec: the role "is one of the known enumerated values", the
  built-in roles Viewer, Editor and Admin.
\<close>

definition IsValid :: "RoleType \<Rightarrow> bool" where
  "IsValid r = (r = ''Viewer'' \<or> r = ''Admin'' \<or> r = ''Editor'')"

type_synonym Metadata = "string \<rightharpoonup> bool" \<comment> \<open>\<^verbatim>\<open>accesscontrol.Metadata\<close>, a \<^verbatim>\<open>map[string]bool\<close>\<close>

record User =
  Id :: int64

record SignedInUser =
  siu_UserId :: int64
  siu_OrgId :: int64
  siu_Login :: string
  siu_IsGrafanaAdmin :: bool

record Cfg =
  HiddenUsers :: "string set"

record Permission =
  Action :: string
  Scope :: string

text \<open>
  \<^verbatim>\<open>models.OrgUserDTO\<close>. \<open>AccessControl\<close> is a Go map, \<open>None\<close> when it is nil. The
  timestamps of the Go struct are carried along untouched by every handler and are left out.
\<close>

record OrgUserDTO =
  OrgId :: int64
  UserId :: int64
  Email :: string
  Name :: string
  AvatarUrl :: string
  Login :: string
  Role :: string
  LastSeenAtAge :: string
  AccessControl :: "Metadata option"

record UserLookupDTO =
  lk_UserID :: int64
  lk_Login :: string
  lk_AvatarURL :: string

record AddOrgUserCommand =
  add_LoginOrEmail :: string
  add_Role :: RoleType
  add_OrgId :: int64
  add_UserId :: int64

record UpdateOrgUserCommand =
  upd_Role :: RoleType
  upd_OrgId :: int64
  upd_UserId :: int64

record RemoveOrgUserCommand =
  rm_UserId :: int64
  rm_OrgId :: int64
  ShouldDeleteOrphanedUser :: bool
  UserWasDeleted :: bool

text \<open>
  The queries. In Go each carries a \<^verbatim>\<open>Result\<close> field that the store fills in; in the model
  the store returns the result instead, so the records hold the input fields only.
\<close>

record GetUserByLoginQuery =
  LoginOrEmail :: string

record GetOrgUsersQuery =
  gq_OrgId :: int64
  gq_Query :: string
  gq_Limit :: go_int

record SearchOrgUsersQuery =
  sq_OrgID :: int64
  sq_Query :: string
  sq_Limit :: go_int
  sq_Page :: go_int

record SearchOrgUsersQueryResult =
  TotalCount :: int64
  OrgUsers :: "OrgUserDTO list"
  Page :: go_int
  PerPage :: go_int

subsection \<open>Responses\<close>

text \<open>
  A response is kept as the constructor call of package \<^verbatim>\<open>response\<close> that built it:
  \<^verbatim>\<open>response.Error(status, message, err)\<close>, \<^verbatim>\<open>response.JSON(status, body)\<close> and
  \<^verbatim>\<open>response.Success(message)\<close>. A \<^verbatim>\<open>util.DynMap\<close> literal is the list of its entries.
\<close>

datatype dynval = DynString string | DynInt64 int64

datatype body =
    DynMap "(string \<times> dynval) list"
  | OrgUserDTOs "OrgUserDTO list"
  | UserLookupDTOs "UserLookupDTO list"
  | SearchResult SearchOrgUsersQueryResult

datatype response =
    response_Error int string "error option"
  | response_JSON int body
  | response_Success string

text \<open>
  Modelled from the spec: the HTTP status of a response. The status of \<^verbatim>\<open>response.Error\<close>
  and \<^verbatim>\<open>response.JSON\<close> is their first argument; \<^verbatim>\<open>response.Success\<close>, of a package
  that is not among the verified files, is the success response that carries a message, with
  status 200.
\<close>

fun status :: "response \<Rightarrow> int" where
  "status (response_Error s m e) = s"
| "status (response_JSON s b) = s"
| "status (response_Success m) = 200"

subsection \<open>The store, and the world a handler runs in\<close>

text \<open>
  \<^verbatim>\<open>hs.SQLStore\<close>: each method takes the command or query and the database, and returns its
  outcome with the database it leaves. A method that returns only \<^verbatim>\<open>error\<close> gives
  \<open>error option\<close> (\<open>None\<close> is Go's \<^verbatim>\<open>nil\<close>); a method that fills in a result gives
  \<open>Inl\<close> the error or \<open>Inr\<close> the result; \<open>RemoveOrgUser\<close> gives the value it leaves in
  \<^verbatim>\<open>cmd.UserWasDeleted\<close>.
\<close>

record 'db SQLStore =
  GetUserByLogin :: "GetUserByLoginQuery \<Rightarrow> 'db \<Rightarrow> (error + User) \<times> 'db"
  AddOrgUser :: "AddOrgUserCommand \<Rightarrow> 'db \<Rightarrow> error option \<times> 'db"
  GetOrgUsers :: "GetOrgUsersQuery \<Rightarrow> 'db \<Rightarrow> (error + OrgUserDTO list) \<times> 'db"
  SearchOrgUsers :: "SearchOrgUsersQuery \<Rightarrow> 'db \<Rightarrow> (error + SearchOrgUsersQueryResult) \<times> 'db"
  UpdateOrgUser :: "UpdateOrgUserCommand \<Rightarrow> 'db \<Rightarrow> error option \<times> 'db"
  RemoveOrgUser :: "RemoveOrgUserCommand \<Rightarrow> 'db \<Rightarrow> (error + bool) \<times> 'db"

text \<open>\<^verbatim>\<open>hs.AccessControl\<close>, an interface value that may be nil.\<close>

record AccessControl =
  IsDisabled :: bool
  GetUserPermissions :: "SignedInUser \<Rightarrow> Permission list \<times> error option"

record 'db HTTPServer =
  SQLStore :: "'db SQLStore"
  hs_AccessControl :: "AccessControl option"
  Cfg :: Cfg

text \<open>Every call a handler makes to the store is recorded, with the argument it passed.\<close>

datatype store_call =
    GetUserByLogin_call GetUserByLoginQuery
  | AddOrgUser_call AddOrgUserCommand
  | GetOrgUsers_call GetOrgUsersQuery
  | SearchOrgUsers_call SearchOrgUsersQuery
  | UpdateOrgUser_call UpdateOrgUserCommand
  | RemoveOrgUser_call RemoveOrgUserCommand

text \<open>
  The state a handler acts on: the database behind the store, the store calls made so far,
  and the lines written through \<^verbatim>\<open>hs.log.Error\<close> (message and error).
\<close>

record 'db world =
  db :: 'db
  calls :: "store_call list"
  log :: "(string \<times> error) list"

definition store_GetUserByLogin ::
  "'db HTTPServer \<Rightarrow> GetUserByLoginQuery \<Rightarrow> 'db world \<Rightarrow> (error + User) \<times> 'db world" where
  "store_GetUserByLogin hs q w =
     (case GetUserByLogin (SQLStore hs) q (db w) of
        (r, d) \<Rightarrow> (r, w\<lparr>db := d, calls := calls w @ [GetUserByLogin_call q]\<rparr>))"

definition store_AddOrgUser ::
  "'db HTTPServer \<Rightarrow> AddOrgUserCommand \<Rightarrow> 'db world \<Rightarrow> error option \<times> 'db world" where
  "store_AddOrgUser hs cmd w =
     (case AddOrgUser (SQLStore hs) cmd (db w) of
        (r, d) \<Rightarrow> (r, w\<lparr>db := d, calls := calls w @ [AddOrgUser_call cmd]\<rparr>))"

definition store_GetOrgUsers ::
  "'db HTTPServer \<Rightarrow> GetOrgUsersQuery \<Rightarrow> 'db world \<Rightarrow> (error + OrgUserDTO list) \<times> 'db world" where
  "store_GetOrgUsers hs q w =
     (case GetOrgUsers (SQLStore hs) q (db w) of
        (r, d) \<Rightarrow> (r, w\<lparr>db := d, calls := calls w @ [GetOrgUsers_call q]\<rparr>))"

definition store_SearchOrgUsers ::
  "'db HTTPServer \<Rightarrow> SearchOrgUsersQuery \<Rightarrow> 'db world
     \<Rightarrow> (error + SearchOrgUsersQueryResult) \<times> 'db world" where
  "store_SearchOrgUsers hs q w =
     (case SearchOrgUsers (SQLStore hs) q (db w) of
        (r, d) \<Rightarrow> (r, w\<lparr>db := d, calls := calls w @ [SearchOrgUsers_call q]\<rparr>))"

definition store_UpdateOrgUser ::
  "'db HTTPServer \<Rightarrow> UpdateOrgUserCommand \<Rightarrow> 'db world \<Rightarrow> error option \<times> 'db world" where
  "store_UpdateOrgUser hs cmd w =
     (case UpdateOrgUser (SQLStore hs) cmd (db w) of
        (r, d) \<Rightarrow> (r, w\<lparr>db := d, calls := calls w @ [UpdateOrgUser_call cmd]\<rparr>))"

definition store_RemoveOrgUser ::
  "'db HTTPServer \<Rightarrow> RemoveOrgUserCommand \<Rightarrow> 'db world \<Rightarrow> (error + bool) \<times> 'db world" where
  "store_RemoveOrgUser hs cmd w =
     (case RemoveOrgUser (SQLStore hs) cmd (db w) of
        (r, d) \<Rightarrow> (r, w\<lparr>db := d, calls := calls w @ [RemoveOrgUser_call cmd]\<rparr>))"

subsection \<open>Adding a member\<close>

definition addOrgUserHelper ::
  "'db HTTPServer \<Rightarrow> AddOrgUserCommand \<Rightarrow> 'db world \<Rightarrow> response \<times> 'db world" where
  "addOrgUserHelper hs cmd w =
     (if \<not> IsValid (add_Role cmd) then
        (response_Error 400 ''Invalid role specified'' None, w)
      else
        case store_GetUserByLogin hs \<lparr>LoginOrEmail = add_LoginOrEmail cmd\<rparr> w of
          (Inl err, w1) \<Rightarrow> (response_Error 404 ''User not found'' None, w1)
        | (Inr userToAdd, w1) \<Rightarrow>
            (let cmd1 = cmd\<lparr>add_UserId := Id userToAdd\<rparr> in
             case store_AddOrgUser hs cmd1 w1 of
               (Some err, w2) \<Rightarrow>
                 if errors_Is err ErrOrgUserAlreadyAdded then
                   (response_JSON 409 (DynMap
                      [(''message'', DynString ''User is already member of this organization''),
                       (''userId'', DynInt64 (add_UserId cmd1))]), w2)
                 else
                   (response_Error 500 ''Could not add user to organization'' (Some err), w2)
             | (None, w2) \<Rightarrow>
                 (response_JSON 200 (DynMap
                    [(''message'', DynString ''User added to organization''),
                     (''userId'', DynInt64 (add_UserId cmd1))]), w2)))"

subsection \<open>Requests and package-level helpers\<close>

text \<open>
  \<^verbatim>\<open>models.ReqContext\<close>: the organization and identity of the signed-in user, and the
  accessors of the query string and of the path parameters, already parsed as the web
  framework returns them.
\<close>

record Request =
  Body :: string

record ReqContext =
  Req :: Request
  ctx_OrgId :: int64
  ctx_SignedInUser :: SignedInUser
  Query :: "string \<Rightarrow> string"
  QueryInt :: "string \<Rightarrow> go_int"
  QueryBool :: "string \<Rightarrow> bool"
  ParamsInt64 :: "string \<Rightarrow> int64"

text \<open>
  Functions of other packages that the handlers call: \<^verbatim>\<open>web.Bind\<close> (at the two command
  types it is used at), \<^verbatim>\<open>dtos.IsHiddenUser\<close>, \<^verbatim>\<open>dtos.GetGravatarUrl\<close> and
  \<^verbatim>\<open>accesscontrol.GetResourcesMetadata\<close> (a nil map is \<open>None\<close>).
\<close>

record packages =
  web_Bind_AddOrgUserCommand :: "Request \<Rightarrow> error + AddOrgUserCommand"
  web_Bind_UpdateOrgUserCommand :: "Request \<Rightarrow> error + UpdateOrgUserCommand"
  dtos_IsHiddenUser :: "string \<Rightarrow> SignedInUser \<Rightarrow> Cfg \<Rightarrow> bool"
  dtos_GetGravatarUrl :: "string \<Rightarrow> string"
  accesscontrol_GetResourcesMetadata ::
    "Permission list \<Rightarrow> string \<Rightarrow> (string \<rightharpoonup> bool) \<Rightarrow> (string \<rightharpoonup> Metadata) option"

text \<open>\<^verbatim>\<open>fmt.Sprint\<close> of an \<^verbatim>\<open>int64\<close>: its decimal digits, with a minus sign when negative.\<close>

definition digit :: "nat \<Rightarrow> char" where
  "digit d = char_of (48 + d)"

function dec_nat :: "nat \<Rightarrow> string" where
  "dec_nat n = (if n < 10 then [digit n] else dec_nat (n div 10) @ [digit (n mod 10)])"
  by pat_completeness auto
termination
  by (relation "measure id") auto

declare dec_nat.simps [simp del]

definition fmt_Sprint :: "int64 \<Rightarrow> string" where
  "fmt_Sprint x =
     (if sint x < 0 then CHR ''-'' # dec_nat (nat (- sint x)) else dec_nat (nat (sint x)))"

text \<open>POST /api/org/users\<close>

definition AddOrgUserToCurrentOrg ::
  "'db HTTPServer \<Rightarrow> packages \<Rightarrow> ReqContext \<Rightarrow> 'db world \<Rightarrow> response \<times> 'db world" where
  "AddOrgUserToCurrentOrg hs pk c w =
     (case web_Bind_AddOrgUserCommand pk (Req c) of
        Inl err \<Rightarrow> (response_Error 400 ''bad request data'' (Some err), w)
      | Inr cmd \<Rightarrow> addOrgUserHelper hs (cmd\<lparr>add_OrgId := ctx_OrgId c\<rparr>) w)"

text \<open>POST /api/orgs/:orgId/users\<close>

definition AddOrgUser_handler ::
  "'db HTTPServer \<Rightarrow> packages \<Rightarrow> ReqContext \<Rightarrow> 'db world \<Rightarrow> response \<times> 'db world" where
  "AddOrgUser_handler hs pk c w =
     (case web_Bind_AddOrgUserCommand pk (Req c) of
        Inl err \<Rightarrow> (response_Error 400 ''bad request data'' (Some err), w)
      | Inr cmd \<Rightarrow> addOrgUserHelper hs (cmd\<lparr>add_OrgId := ParamsInt64 c '':orgId''\<rparr>) w)"

subsection \<open>Listing members\<close>

text \<open>
  \<^verbatim>\<open>getUserAccessControlMetadata\<close> returns a map (nil is \<open>None\<close>) and an error (nil is
  \<open>None\<close>), as the two results of the Go function.
\<close>

definition getUserAccessControlMetadata ::
  "'db HTTPServer \<Rightarrow> packages \<Rightarrow> ReqContext \<Rightarrow> (string \<rightharpoonup> bool)
     \<Rightarrow> (string \<rightharpoonup> Metadata) option \<times> error option" where
  "getUserAccessControlMetadata hs pk c resourceIDs =
     (case hs_AccessControl hs of
        None \<Rightarrow> (None, None)
      | Some ac \<Rightarrow>
          if IsDisabled ac \<or> \<not> QueryBool c ''accesscontrol'' then (None, None)
          else
            (case GetUserPermissions ac (ctx_SignedInUser c) of
               (userPermissions, err) \<Rightarrow>
                 if err \<noteq> None \<or> length userPermissions = 0 then (None, err)
                 else
                   (accesscontrol_GetResourcesMetadata pk userPermissions ''users'' resourceIDs,
                    None)))"

text \<open>
  The first loop of \<^verbatim>\<open>getOrgUsersHelper\<close>, over \<^verbatim>\<open>query.Result\<close>: the accumulator is the
  pair of \<^verbatim>\<open>filteredUsers\<close> and \<^verbatim>\<open>userIDs\<close>. The Go slice holds pointers; each user is
  written at most with values computed from its own fields, so sharing between entries
  changes nothing and the users are values here.
\<close>

fun getOrgUsers_loop ::
  "'db HTTPServer \<Rightarrow> packages \<Rightarrow> SignedInUser \<Rightarrow> OrgUserDTO list
     \<Rightarrow> OrgUserDTO list \<times> (string \<rightharpoonup> bool) \<Rightarrow> OrgUserDTO list \<times> (string \<rightharpoonup> bool)" where
  "getOrgUsers_loop hs pk signedInUser [] acc = acc"
| "getOrgUsers_loop hs pk signedInUser (user # rest) (filteredUsers, userIDs) =
     (if dtos_IsHiddenUser pk (Login user) signedInUser (Cfg hs) then
        getOrgUsers_loop hs pk signedInUser rest (filteredUsers, userIDs)
      else
        let user1 = user\<lparr>AvatarUrl := dtos_GetGravatarUrl pk (Email user)\<rparr> in
        getOrgUsers_loop hs pk signedInUser rest
          (filteredUsers @ [user1], userIDs(fmt_Sprint (UserId user1) \<mapsto> True)))"

text \<open>Indexing a Go map: the zero value (nil) when the map is nil or the key is absent.\<close>

definition map_index :: "(string \<rightharpoonup> Metadata) option \<Rightarrow> string \<Rightarrow> Metadata option" where
  "map_index m k = (case m of None \<Rightarrow> None | Some f \<Rightarrow> f k)"

definition getOrgUsersHelper ::
  "'db HTTPServer \<Rightarrow> packages \<Rightarrow> ReqContext \<Rightarrow> GetOrgUsersQuery \<Rightarrow> SignedInUser \<Rightarrow> 'db world
     \<Rightarrow> (error + OrgUserDTO list) \<times> 'db world" where
  "getOrgUsersHelper hs pk c query signedInUser w =
     (case store_GetOrgUsers hs query w of
        (Inl err, w1) \<Rightarrow> (Inl err, w1)
      | (Inr result, w1) \<Rightarrow>
          (case getOrgUsers_loop hs pk signedInUser result ([], Map.empty) of
             (filteredUsers, userIDs) \<Rightarrow>
               (case getUserAccessControlMetadata hs pk c userIDs of
                  (accessControlMetadata, Some errAC) \<Rightarrow>
                    (Inr filteredUsers,
                     w1\<lparr>log := log w1 @ [(''Failed to get access control metadata'', errAC)]\<rparr>)
                | (accessControlMetadata, None) \<Rightarrow>
                    (Inr (map (\<lambda>u. u\<lparr>AccessControl :=
                                 map_index accessControlMetadata (fmt_Sprint (UserId u))\<rparr>)
                            filteredUsers),
                     w1))))"

text \<open>GET /api/org/users\<close>

definition GetOrgUsersForCurrentOrg ::
  "'db HTTPServer \<Rightarrow> packages \<Rightarrow> ReqContext \<Rightarrow> 'db world \<Rightarrow> response \<times> 'db world" where
  "GetOrgUsersForCurrentOrg hs pk c w =
     (case getOrgUsersHelper hs pk c
             \<lparr>gq_OrgId = ctx_OrgId c, gq_Query = Query c ''query'',
              gq_Limit = QueryInt c ''limit''\<rparr>
             (ctx_SignedInUser c) w of
        (Inl err, w1) \<Rightarrow>
          (response_Error 500 ''Failed to get users for current organization'' (Some err), w1)
      | (Inr result, w1) \<Rightarrow> (response_JSON 200 (OrgUserDTOs result), w1))"

text \<open>GET /api/org/users/lookup\<close>

definition GetOrgUsersForCurrentOrgLookup ::
  "'db HTTPServer \<Rightarrow> packages \<Rightarrow> ReqContext \<Rightarrow> 'db world \<Rightarrow> response \<times> 'db world" where
  "GetOrgUsersForCurrentOrgLookup hs pk c w =
     (case getOrgUsersHelper hs pk c
             \<lparr>gq_OrgId = ctx_OrgId c, gq_Query = Query c ''query'',
              gq_Limit = QueryInt c ''limit''\<rparr>
             (ctx_SignedInUser c) w of
        (Inl err, w1) \<Rightarrow>
          (response_Error 500 ''Failed to get users for current organization'' (Some err), w1)
      | (Inr orgUsers, w1) \<Rightarrow>
          (response_JSON 200 (UserLookupDTOs
             (map (\<lambda>u. \<lparr>lk_UserID = UserId u, lk_Login = Login u, lk_AvatarURL = AvatarUrl u\<rparr>)
                orgUsers)),
           w1))"

text \<open>GET /api/orgs/:orgId/users\<close>

definition GetOrgUsers_handler ::
  "'db HTTPServer \<Rightarrow> packages \<Rightarrow> ReqContext \<Rightarrow> 'db world \<Rightarrow> response \<times> 'db world" where
  "GetOrgUsers_handler hs pk c w =
     (case getOrgUsersHelper hs pk c
             \<lparr>gq_OrgId = ParamsInt64 c '':orgId'', gq_Query = [], gq_Limit = 0\<rparr>
             (ctx_SignedInUser c) w of
        (Inl err, w1) \<Rightarrow>
          (response_Error 500 ''Failed to get users for organization'' (Some err), w1)
      | (Inr result, w1) \<Rightarrow> (response_JSON 200 (OrgUserDTOs result), w1))"

subsection \<open>Paged search\<close>

text \<open>The loop of \<^verbatim>\<open>SearchOrgUsersWithPaging\<close> over \<^verbatim>\<open>query.Result.OrgUsers\<close>.\<close>

fun searchOrgUsers_loop ::
  "'db HTTPServer \<Rightarrow> packages \<Rightarrow> SignedInUser \<Rightarrow> OrgUserDTO list
     \<Rightarrow> OrgUserDTO list \<Rightarrow> OrgUserDTO list" where
  "searchOrgUsers_loop hs pk signedInUser [] filteredUsers = filteredUsers"
| "searchOrgUsers_loop hs pk signedInUser (user # rest) filteredUsers =
     (if dtos_IsHiddenUser pk (Login user) signedInUser (Cfg hs) then
        searchOrgUsers_loop hs pk signedInUser rest filteredUsers
      else
        let user1 = user\<lparr>AvatarUrl := dtos_GetGravatarUrl pk (Email user)\<rparr> in
        searchOrgUsers_loop hs pk signedInUser rest (filteredUsers @ [user1]))"

text \<open>GET /api/org/users/search. The comparisons are those of Go's signed \<^verbatim>\<open>int\<close>.\<close>

definition SearchOrgUsersWithPaging ::
  "'db HTTPServer \<Rightarrow> packages \<Rightarrow> ReqContext \<Rightarrow> 'db world \<Rightarrow> response \<times> 'db world" where
  "SearchOrgUsersWithPaging hs pk c w =
     (let perPage0 = QueryInt c ''perpage'';
          perPage = (if sint perPage0 \<le> 0 then 1000 else perPage0);
          page0 = QueryInt c ''page'';
          page = (if sint page0 < 1 then 1 else page0);
          query = \<lparr>sq_OrgID = ctx_OrgId c, sq_Query = Query c ''query'',
                   sq_Limit = perPage, sq_Page = page\<rparr>
      in case store_SearchOrgUsers hs query w of
           (Inl err, w1) \<Rightarrow>
             (response_Error 500 ''Failed to get users for current organization'' (Some err), w1)
         | (Inr result, w1) \<Rightarrow>
             (let filteredUsers =
                    searchOrgUsers_loop hs pk (ctx_SignedInUser c) (OrgUsers result) []
              in (response_JSON 200 (SearchResult
                    (result\<lparr>OrgUsers := filteredUsers, Page := page, PerPage := perPage\<rparr>)),
                  w1)))"

subsection \<open>Updating a role\<close>

definition updateOrgUserHelper ::
  "'db HTTPServer \<Rightarrow> UpdateOrgUserCommand \<Rightarrow> 'db world \<Rightarrow> response \<times> 'db world" where
  "updateOrgUserHelper hs cmd w =
     (if \<not> IsValid (upd_Role cmd) then
        (response_Error 400 ''Invalid role specified'' None, w)
      else
        case store_UpdateOrgUser hs cmd w of
          (Some err, w1) \<Rightarrow>
            if errors_Is err ErrLastOrgAdmin then
              (response_Error 400
                 ''Cannot change role so that there is no organization admin left'' None, w1)
            else (response_Error 500 ''Failed update org user'' (Some err), w1)
        | (None, w1) \<Rightarrow> (response_Success ''Organization user updated'', w1))"

text \<open>PATCH /api/org/users/:userId\<close>

definition UpdateOrgUserForCurrentOrg ::
  "'db HTTPServer \<Rightarrow> packages \<Rightarrow> ReqContext \<Rightarrow> 'db world \<Rightarrow> response \<times> 'db world" where
  "UpdateOrgUserForCurrentOrg hs pk c w =
     (case web_Bind_UpdateOrgUserCommand pk (Req c) of
        Inl err \<Rightarrow> (response_Error 400 ''bad request data'' (Some err), w)
      | Inr cmd \<Rightarrow>
          updateOrgUserHelper hs
            (cmd\<lparr>upd_OrgId := ctx_OrgId c, upd_UserId := ParamsInt64 c '':userId''\<rparr>) w)"

text \<open>PATCH /api/orgs/:orgId/users/:userId\<close>

definition UpdateOrgUser_handler ::
  "'db HTTPServer \<Rightarrow> packages \<Rightarrow> ReqContext \<Rightarrow> 'db world \<Rightarrow> response \<times> 'db world" where
  "UpdateOrgUser_handler hs pk c w =
     (case web_Bind_UpdateOrgUserCommand pk (Req c) of
        Inl err \<Rightarrow> (response_Error 400 ''bad request data'' (Some err), w)
      | Inr cmd \<Rightarrow>
          updateOrgUserHelper hs
            (cmd\<lparr>upd_OrgId := ParamsInt64 c '':orgId'',
                 upd_UserId := ParamsInt64 c '':userId''\<rparr>) w)"

subsection \<open>Removing a member\<close>

definition removeOrgUserHelper ::
  "'db HTTPServer \<Rightarrow> RemoveOrgUserCommand \<Rightarrow> 'db world \<Rightarrow> response \<times> 'db world" where
  "removeOrgUserHelper hs cmd w =
     (case store_RemoveOrgUser hs cmd w of
        (Inl err, w1) \<Rightarrow>
          if errors_Is err ErrLastOrgAdmin then
            (response_Error 400 ''Cannot remove last organization admin'' None, w1)
          else (response_Error 500 ''Failed to remove user from organization'' (Some err), w1)
      | (Inr userWasDeleted, w1) \<Rightarrow>
          if userWasDeleted then (response_Success ''User deleted'', w1)
          else (response_Success ''User removed from organization'', w1))"

text \<open>DELETE /api/org/users/:userId\<close>

definition RemoveOrgUserForCurrentOrg ::
  "'db HTTPServer \<Rightarrow> ReqContext \<Rightarrow> 'db world \<Rightarrow> response \<times> 'db world" where
  "RemoveOrgUserForCurrentOrg hs c w =
     removeOrgUserHelper hs
       \<lparr>rm_UserId = ParamsInt64 c '':userId'', rm_OrgId = ctx_OrgId c,
        ShouldDeleteOrphanedUser = True, UserWasDeleted = False\<rparr> w"

text \<open>
  DELETE /api/orgs/:orgId/users/:userId. The struct literal names no
  \<^verbatim>\<open>ShouldDeleteOrphanedUser\<close>, so the field has Go's zero value \<^verbatim>\<open>false\<close>.
\<close>

definition RemoveOrgUser_handler ::
  "'db HTTPServer \<Rightarrow> ReqContext \<Rightarrow> 'db world \<Rightarrow> response \<times> 'db world" where
  "RemoveOrgUser_handler hs c w =
     removeOrgUserHelper hs
       \<lparr>rm_UserId = ParamsInt64 c '':userId'', rm_OrgId = ParamsInt64 c '':orgId'',
        ShouldDeleteOrphanedUser = False, UserWasDeleted = False\<rparr> w"

subsection \<open>What a response lists\<close>

text \<open>
  A user is visible to the requester when \<^verbatim>\<open>dtos.IsHiddenUser\<close> does not hide its login.
\<close>

definition visible :: "'db HTTPServer \<Rightarrow> packages \<Rightarrow> SignedInUser \<Rightarrow> OrgUserDTO \<Rightarrow> bool" where
  "visible hs pk signedInUser u = (\<not> dtos_IsHiddenUser pk (Login u) signedInUser (Cfg hs))"

text \<open>The avatar annotation both loops apply to a user they keep.\<close>

definition with_avatar :: "packages \<Rightarrow> OrgUserDTO \<Rightarrow> OrgUserDTO" where
  "with_avatar pk u = u\<lparr>AvatarUrl := dtos_GetGravatarUrl pk (Email u)\<rparr>"

text \<open>
  The users in the body of a response, each projected to the fields every listing endpoint
  returns (identifier, login, avatar URL); none in an error response.
\<close>

definition lookup_of :: "OrgUserDTO \<Rightarrow> UserLookupDTO" where
  "lookup_of u = \<lparr>lk_UserID = UserId u, lk_Login = Login u, lk_AvatarURL = AvatarUrl u\<rparr>"

fun response_users :: "response \<Rightarrow> UserLookupDTO list" where
  "response_users (response_JSON s (OrgUserDTOs us)) = map lookup_of us"
| "response_users (response_JSON s (UserLookupDTOs ls)) = ls"
| "response_users (response_JSON s (SearchResult r)) = map lookup_of (OrgUsers r)"
| "response_users r = []"

section \<open>The store of the spec\<close>

text \<open>
  Modelled from the spec: the Org Membership Store (\<^verbatim>\<open>SQLStore.UpdateOrgUser\<close> and
  \<^verbatim>\<open>SQLStore.RemoveOrgUser\<close>), whose code is not among the verified files. The spec:
  "an organization must always retain at least one Admin-role member; role updates and
  removals that would violate this are rejected"; "Removing or demoting the last Admin of an
  organization always fails with InvariantViolation and leaves membership unchanged";
  "Removing a user whose only organization membership is this one also deletes the
  underlying user account (orphan cleanup) when the removal path requests it; removing a
  user with other memberships only unlinks, never deletes the account".
  The database is the membership relation and the set of user accounts.
\<close>

record Membership =
  m_OrgId :: int64
  m_UserId :: int64
  m_Role :: RoleType

record specdb =
  memberships :: "Membership list"
  accounts :: "int64 list"

text \<open>
  Modelled from the spec: whether an organization has a member with the Admin role among
  the given memberships.
\<close>

definition has_admin :: "int64 \<Rightarrow> Membership list \<Rightarrow> bool" where
  "has_admin org ms = list_ex (\<lambda>m. m_OrgId m = org \<and> m_Role m = ''Admin'') ms"

text \<open>
  Modelled from the spec: \<^verbatim>\<open>SQLStore.UpdateOrgUser\<close>. The role of the member is changed,
  unless the organization would be left without an Admin: then the update is rejected with
  \<open>ErrLastOrgAdmin\<close> and nothing changes.
\<close>

definition spec_UpdateOrgUser :: "UpdateOrgUserCommand \<Rightarrow> specdb \<Rightarrow> error option \<times> specdb" where
  "spec_UpdateOrgUser cmd d =
     (let ms = map (\<lambda>m. if m_OrgId m = upd_OrgId cmd \<and> m_UserId m = upd_UserId cmd
                         then m\<lparr>m_Role := upd_Role cmd\<rparr> else m) (memberships d)
      in if has_admin (upd_OrgId cmd) ms then (None, d\<lparr>memberships := ms\<rparr>)
         else (Some ErrLastOrgAdmin, d))"

text \<open>
  Modelled from the spec: \<^verbatim>\<open>SQLStore.RemoveOrgUser\<close>. The membership is removed, unless the
  organization would be left without an Admin: then the removal is rejected with
  \<open>ErrLastOrgAdmin\<close> and nothing changes. When the removal asks for it and the user has no
  membership left, the account is deleted too, and the result (\<^verbatim>\<open>cmd.UserWasDeleted\<close>) is
  true.
\<close>

definition spec_RemoveOrgUser :: "RemoveOrgUserCommand \<Rightarrow> specdb \<Rightarrow> (error + bool) \<times> specdb" where
  "spec_RemoveOrgUser cmd d =
     (let ms = filter (\<lambda>m. \<not> (m_OrgId m = rm_OrgId cmd \<and> m_UserId m = rm_UserId cmd))
                 (memberships d)
      in if \<not> has_admin (rm_OrgId cmd) ms then (Inl ErrLastOrgAdmin, d)
         else if ShouldDeleteOrphanedUser cmd \<and> \<not> list_ex (\<lambda>m. m_UserId m = rm_UserId cmd) ms
         then (Inr True, d\<lparr>memberships := ms, accounts := removeAll (rm_UserId cmd) (accounts d)\<rparr>)
         else (Inr False, d\<lparr>memberships := ms\<rparr>))"

section \<open>The users table\<close>

text \<open>
  The component \<^verbatim>\<open>UsersTable\<close> of \<^verbatim>\<open>public/app/features/users/UsersTable.tsx\<close>
  keeps one piece of state that its rows read, \<^verbatim>\<open>showRemoveModal\<close>, and
  reports to its owner through the callbacks \<^verbatim>\<open>onRoleChange\<close> and \<^verbatim>\<open>onRemoveUser\<close>. A
  render is the list of rows; an event handler of a row takes the state and returns the new
  state with the callback invocations it made. The role options fetched by the effect feed
  the role picker only and are left out.
\<close>

record OrgUser =
  orgId :: int
  userId :: int
  login :: string
  email :: string
  name :: string
  avatarUrl :: string
  role :: string
  lastSeenAtAge :: string

datatype AccessControlAction = OrgUsersRoleUpdate | OrgUsersRemove

record contextSrv =
  accessControlEnabled :: bool
  hasPermissionInMetadata :: "AccessControlAction \<Rightarrow> OrgUser \<Rightarrow> bool"

datatype callback_call =
    onRoleChange string OrgUser
  | onRemoveUser OrgUser

type_synonym handler = "bool \<Rightarrow> bool \<times> callback_call list"

record role_picker =
  extended :: bool \<comment> \<open>\<^verbatim>\<open>UserRolePicker\<close> when true, \<^verbatim>\<open>OrgRolePicker\<close> otherwise\<close>
  picker_value :: string
  picker_disabled :: bool
  picker_onChange :: "string \<Rightarrow> handler"

record remove_cell =
  Button_onClick :: handler
  ConfirmModal_body :: string
  ConfirmModal_isOpen :: bool
  ConfirmModal_onDismiss :: handler
  ConfirmModal_onConfirm :: handler

record table_row =
  row_user :: OrgUser
  row_role :: role_picker
  row_remove :: "remove_cell option"

text \<open>JavaScript's \<^verbatim>\<open>Boolean(s)\<close> of a string: false exactly for the empty string.\<close>

definition Boolean :: "string \<Rightarrow> bool" where
  "Boolean s = (s \<noteq> [])"

text \<open>One \<^verbatim>\<open><tr>\<close> of the table body, for \<open>user\<close>, when the state is \<open>showRemoveModal\<close>.\<close>

definition render_row :: "contextSrv \<Rightarrow> bool \<Rightarrow> OrgUser \<Rightarrow> table_row" where
  "render_row ctx showRemoveModal user =
     \<lparr>row_user = user,
      row_role =
        \<lparr>extended = accessControlEnabled ctx,
         picker_value = role user,
         picker_disabled = (\<not> hasPermissionInMetadata ctx OrgUsersRoleUpdate user),
         picker_onChange = (\<lambda>newRole s. (s, [onRoleChange newRole user]))\<rparr>,
      row_remove =
        (if hasPermissionInMetadata ctx OrgUsersRemove user then
           Some \<lparr>Button_onClick = (\<lambda>s. (Boolean (login user), [])),
                 ConfirmModal_body = ''Are you sure you want to delete user '' @ login user @ ''?'',
                 ConfirmModal_isOpen = (Boolean (login user) = showRemoveModal),
                 ConfirmModal_onDismiss = (\<lambda>s. (False, [])),
                 ConfirmModal_onConfirm = (\<lambda>s. (s, [onRemoveUser user]))\<rparr>
         else None)\<rparr>"

definition UsersTable :: "contextSrv \<Rightarrow> OrgUser list \<Rightarrow> bool \<Rightarrow> table_row list" where
  "UsersTable ctx users showRemoveModal = map (render_row ctx showRemoveModal) users"

text \<open>Whether a row shows its confirmation modal open.\<close>

definition modal_open :: "table_row \<Rightarrow> bool" where
  "modal_open r = (case row_remove r of None \<Rightarrow> False | Some cell \<Rightarrow> ConfirmModal_isOpen cell)"

section \<open>Test doubles\<close>

text \<open>
  Concrete collaborators for the examples: a store whose methods answer with fixed outcomes
  and leave the database alone, the store of the spec behind the same interface, packages
  with a visibility filter over the configured hidden logins, and a request.
\<close>

definition stub_SQLStore ::
  "(error + User) \<Rightarrow> error option \<Rightarrow> (error + OrgUserDTO list)
     \<Rightarrow> (error + SearchOrgUsersQueryResult) \<Rightarrow> error option \<Rightarrow> (error + bool)
     \<Rightarrow> 'db SQLStore" where
  "stub_SQLStore gu ao go so uo ro =
     \<lparr>GetUserByLogin = (\<lambda>q d. (gu, d)), AddOrgUser = (\<lambda>cmd d. (ao, d)),
      GetOrgUsers = (\<lambda>q d. (go, d)), SearchOrgUsers = (\<lambda>q d. (so, d)),
      UpdateOrgUser = (\<lambda>cmd d. (uo, d)), RemoveOrgUser = (\<lambda>cmd d. (ro, d))\<rparr>"

definition spec_SQLStore :: "specdb SQLStore" where
  "spec_SQLStore =
     (stub_SQLStore (Inl ErrUserNotFound) None (Inr []) (Inl (OtherError ''unused'')) None
        (Inr False))
       \<lparr>UpdateOrgUser := spec_UpdateOrgUser, RemoveOrgUser := spec_RemoveOrgUser\<rparr>"

definition stub_HTTPServer :: "'db SQLStore \<Rightarrow> AccessControl option \<Rightarrow> 'db HTTPServer" where
  "stub_HTTPServer st ac =
     \<lparr>SQLStore = st, hs_AccessControl = ac, Cfg = \<lparr>HiddenUsers = {''bot''}\<rparr>\<rparr>"

definition failing_AccessControl :: AccessControl where
  "failing_AccessControl =
     \<lparr>IsDisabled = False,
      GetUserPermissions = (\<lambda>u. ([], Some (OtherError ''permission lookup failed'')))\<rparr>"

definition stub_IsHiddenUser :: "string \<Rightarrow> SignedInUser \<Rightarrow> Cfg \<Rightarrow> bool" where
  "stub_IsHiddenUser userLogin signedInUser cfg =
     (userLogin \<noteq> [] \<and> \<not> siu_IsGrafanaAdmin signedInUser \<and> userLogin \<noteq> siu_Login signedInUser
      \<and> userLogin \<in> HiddenUsers cfg)"

definition stub_packages ::
  "(error + AddOrgUserCommand) \<Rightarrow> (error + UpdateOrgUserCommand) \<Rightarrow> packages" where
  "stub_packages bindAdd bindUpdate =
     \<lparr>web_Bind_AddOrgUserCommand = (\<lambda>r. bindAdd),
      web_Bind_UpdateOrgUserCommand = (\<lambda>r. bindUpdate),
      dtos_IsHiddenUser = stub_IsHiddenUser,
      dtos_GetGravatarUrl = (\<lambda>e. ''/avatar/'' @ e),
      accesscontrol_GetResourcesMetadata = (\<lambda>ps resource ids. Some Map.empty)\<rparr>"

definition no_bind :: packages where
  "no_bind = stub_packages (Inl (OtherError ''no body'')) (Inl (OtherError ''no body''))"

definition viewer :: SignedInUser where
  "viewer = \<lparr>siu_UserId = 2, siu_OrgId = 1, siu_Login = ''viewer'', siu_IsGrafanaAdmin = False\<rparr>"

definition stub_ReqContext :: "go_int \<Rightarrow> go_int \<Rightarrow> bool \<Rightarrow> ReqContext" where
  "stub_ReqContext perpage page ac =
     \<lparr>Req = \<lparr>Body = []\<rparr>, ctx_OrgId = 1, ctx_SignedInUser = viewer,
      Query = (\<lambda>k. []),
      QueryInt = (\<lambda>k. if k = ''perpage'' then perpage else if k = ''page'' then page else 0),
      QueryBool = (\<lambda>k. ac),
      ParamsInt64 = (\<lambda>k. if k = '':orgId'' then 1 else 3)\<rparr>"

definition world0 :: "nat world" where
  "world0 = \<lparr>db = 0, calls = [], log = []\<rparr>"

definition alice_row :: OrgUserDTO where
  "alice_row =
     \<lparr>OrgId = 1, UserId = 3, Email = ''alice@example.org'', Name = ''Alice'', AvatarUrl = [],
      Login = ''alice'', Role = ''Admin'', LastSeenAtAge = ''2m'', AccessControl = None\<rparr>"

definition bot_row :: OrgUserDTO where
  "bot_row =
     \<lparr>OrgId = 1, UserId = 4, Email = ''bot@example.org'', Name = ''Bot'', AvatarUrl = [],
      Login = ''bot'', Role = ''Viewer'', LastSeenAtAge = ''1d'', AccessControl = None\<rparr>"

definition page_of_two :: SearchOrgUsersQueryResult where
  "page_of_two = \<lparr>TotalCount = 2, OrgUsers = [alice_row, bot_row], Page = 0, PerPage = 0\<rparr>"

definition list_store :: "nat SQLStore" where
  "list_store =
     stub_SQLStore (Inl ErrUserNotFound) None (Inr [alice_row, bot_row]) (Inr page_of_two) None
       (Inr False)"

definition add_alice :: AddOrgUserCommand where
  "add_alice =
     \<lparr>add_LoginOrEmail = ''alice'', add_Role = ''Viewer'', add_OrgId = 1, add_UserId = 0\<rparr>"

definition add_bad_role :: AddOrgUserCommand where
  "add_bad_role =
     \<lparr>add_LoginOrEmail = ''alice'', add_Role = ''Owner'', add_OrgId = 1, add_UserId = 0\<rparr>"

definition update_bad_role :: UpdateOrgUserCommand where
  "update_bad_role = \<lparr>upd_Role = ''Owner'', upd_OrgId = 1, upd_UserId = 3\<rparr>"

text \<open>
  An organization whose only Admin is user 3, with a Viewer, user 5, who belongs to no other
  organization.
\<close>

definition specdb0 :: specdb where
  "specdb0 =
     \<lparr>memberships = [\<lparr>m_OrgId = 1, m_UserId = 3, m_Role = ''Admin''\<rparr>,
                      \<lparr>m_OrgId = 1, m_UserId = 5, m_Role = ''Viewer''\<rparr>],
      accounts = [3, 5]\<rparr>"

definition demote_admin :: UpdateOrgUserCommand where
  "demote_admin = \<lparr>upd_Role = ''Viewer'', upd_OrgId = 1, upd_UserId = 3\<rparr>"

definition remove_admin :: RemoveOrgUserCommand where
  "remove_admin =
     \<lparr>rm_UserId = 3, rm_OrgId = 1, ShouldDeleteOrphanedUser = True, UserWasDeleted = False\<rparr>"

definition spec_world :: "specdb world" where
  "spec_world = \<lparr>db = specdb0, calls = [], log = []\<rparr>"

definition allow_all :: contextSrv where
  "allow_all = \<lparr>accessControlEnabled = False, hasPermissionInMetadata = (\<lambda>a u. True)\<rparr>"

definition alice :: OrgUser where
  "alice =
     \<lparr>orgId = 1, userId = 3, login = ''alice'', email = ''alice@example.org'', name = ''Alice'',
      avatarUrl = ''/avatar/alice'', role = ''Admin'', lastSeenAtAge = ''2m''\<rparr>"

definition bob :: OrgUser where
  "bob =
     \<lparr>orgId = 1, userId = 5, login = ''bob'', email = ''bob@example.org'', name = ''Bob'',
      avatarUrl = ''/avatar/bob'', role = ''Viewer'', lastSeenAtAge = ''5h''\<rparr>"

definition nameless :: OrgUser where
  "nameless =
     \<lparr>orgId = 1, userId = 6, login = [], email = ''x@example.org'', name = [],
      avatarUrl = [], role = ''Viewer'', lastSeenAtAge = ''9d''\<rparr>"

section \<open>Properties\<close>

text \<open>The store calls of the handlers, unfolded together in the proofs below.\<close>

lemmas store_defs =
  store_GetUserByLogin_def store_AddOrgUser_def store_GetOrgUsers_def
  store_SearchOrgUsers_def store_UpdateOrgUser_def store_RemoveOrgUser_def

subsection \<open>Adding a member\<close>

text \<open>
  Claim C1 as stated (an add-member request whose store call reports that the user is already
  a member is answered with HTTP 200) fails: here the store answers
  \<open>ErrOrgUserAlreadyAdded\<close> and the status of the response is not 200.
\<close>

theorem C1_duplicate_member_counterexample:
  "fst (AddOrgUser
          (SQLStore (stub_HTTPServer
             (stub_SQLStore (Inr \<lparr>Id = 3\<rparr>) (Some ErrOrgUserAlreadyAdded) (Inr [])
                (Inl ErrUserNotFound) None (Inr False)) None))
          (add_alice\<lparr>add_UserId := 3\<rparr>) (0::nat)) = Some ErrOrgUserAlreadyAdded
   \<and> status (fst (addOrgUserHelper
         (stub_HTTPServer
            (stub_SQLStore (Inr \<lparr>Id = 3\<rparr>) (Some ErrOrgUserAlreadyAdded) (Inr [])
               (Inl ErrUserNotFound) None (Inr False)) None)
         add_alice world0)) \<noteq> 200"
  by (simp add: addOrgUserHelper_def store_defs stub_HTTPServer_def stub_SQLStore_def
      add_alice_def world0_def IsValid_def)

text \<open>
  Claim C1, amended: for every add-member request with a valid role whose user lookup
  succeeds and whose store call \<^verbatim>\<open>AddOrgUser\<close> reports that the user is already a member
  (an error that is, or wraps, \<open>ErrOrgUserAlreadyAdded\<close>), the handler answers through
  \<^verbatim>\<open>response.JSON\<close>, not \<^verbatim>\<open>response.Error\<close>, with HTTP status 409 and a body that holds
  a message and the userId of the user found; it has made the lookup and the insert call,
  and nothing else.
\<close>

theorem C1_duplicate_member_conflict:
  assumes "IsValid (add_Role cmd)"
    and "GetUserByLogin (SQLStore hs) \<lparr>LoginOrEmail = add_LoginOrEmail cmd\<rparr> (db w) = (Inr u, d1)"
    and "AddOrgUser (SQLStore hs) (cmd\<lparr>add_UserId := Id u\<rparr>) d1 = (Some err, d2)"
    and "errors_Is err ErrOrgUserAlreadyAdded"
  shows "addOrgUserHelper hs cmd w =
           (response_JSON 409 (DynMap
              [(''message'', DynString ''User is already member of this organization''),
               (''userId'', DynInt64 (Id u))]),
            w\<lparr>db := d2,
              calls := calls w @ [GetUserByLogin_call \<lparr>LoginOrEmail = add_LoginOrEmail cmd\<rparr>,
                                  AddOrgUser_call (cmd\<lparr>add_UserId := Id u\<rparr>)]\<rparr>)"
  using assms
  by (simp add: addOrgUserHelper_def store_defs)

text \<open>
  The amended claim C1 at a store that wraps the sentinel: the wrapped error is still
  recognised, and the response is the 409 with message and userId.
\<close>

theorem C1_duplicate_member_conflict_witness:
  "IsValid (add_Role add_alice)
   \<and> errors_Is (Wrap ''insert'' ErrOrgUserAlreadyAdded) ErrOrgUserAlreadyAdded
   \<and> addOrgUserHelper
         (stub_HTTPServer
            (stub_SQLStore (Inr \<lparr>Id = 3\<rparr>) (Some (Wrap ''insert'' ErrOrgUserAlreadyAdded)) (Inr [])
               (Inl ErrUserNotFound) None (Inr False)) None)
         add_alice world0 =
       (response_JSON 409 (DynMap
          [(''message'', DynString ''User is already member of this organization''),
           (''userId'', DynInt64 3)]),
        \<lparr>db = 0,
         calls = [GetUserByLogin_call \<lparr>LoginOrEmail = ''alice''\<rparr>,
                  AddOrgUser_call (add_alice\<lparr>add_UserId := 3\<rparr>)],
         log = []\<rparr>)"
  using C1_duplicate_member_conflict [of add_alice
      "stub_HTTPServer
         (stub_SQLStore (Inr \<lparr>Id = 3\<rparr>) (Some (Wrap ''insert'' ErrOrgUserAlreadyAdded)) (Inr [])
            (Inl ErrUserNotFound) None (Inr False)) None"
      world0 "\<lparr>Id = 3\<rparr>" 0 "Wrap ''insert'' ErrOrgUserAlreadyAdded" 0]
  by (simp add: stub_HTTPServer_def stub_SQLStore_def add_alice_def world0_def IsValid_def)

text \<open>
  Claim C3: for every add-member or update-role request whose role is not valid, the handler
  returns HTTP 400 with the message "Invalid role specified" and leaves the world as it was:
  no store call is recorded, the database is the same, nothing is logged. This holds for the
  two helpers and for the four endpoints, once the request body has been bound to a command
  with such a role.
\<close>

theorem C3_invalid_role_no_store_call:
  "(\<not> IsValid (add_Role cmd) \<longrightarrow>
      addOrgUserHelper hs cmd w = (response_Error 400 ''Invalid role specified'' None, w))
   \<and> (\<not> IsValid (upd_Role ucmd) \<longrightarrow>
      updateOrgUserHelper hs ucmd w = (response_Error 400 ''Invalid role specified'' None, w))
   \<and> (web_Bind_AddOrgUserCommand pk (Req c) = Inr cmd \<and> \<not> IsValid (add_Role cmd) \<longrightarrow>
      AddOrgUserToCurrentOrg hs pk c w = (response_Error 400 ''Invalid role specified'' None, w)
      \<and> AddOrgUser_handler hs pk c w = (response_Error 400 ''Invalid role specified'' None, w))
   \<and> (web_Bind_UpdateOrgUserCommand pk (Req c) = Inr ucmd \<and> \<not> IsValid (upd_Role ucmd) \<longrightarrow>
      UpdateOrgUserForCurrentOrg hs pk c w = (response_Error 400 ''Invalid role specified'' None, w)
      \<and> UpdateOrgUser_handler hs pk c w = (response_Error 400 ''Invalid role specified'' None, w))"
  by (simp add: addOrgUserHelper_def updateOrgUserHelper_def AddOrgUserToCurrentOrg_def
      AddOrgUser_handler_def UpdateOrgUserForCurrentOrg_def UpdateOrgUser_handler_def)

text \<open>
  Claim C3 at the role "Owner", which is not valid: the world after each handler is the
  world before it, with no store call.
\<close>

theorem C3_invalid_role_no_store_call_witness:
  "\<not> IsValid (add_Role add_bad_role) \<and> \<not> IsValid (upd_Role update_bad_role)
   \<and> addOrgUserHelper (stub_HTTPServer spec_SQLStore None) add_bad_role spec_world =
       (response_Error 400 ''Invalid role specified'' None, spec_world)
   \<and> updateOrgUserHelper (stub_HTTPServer spec_SQLStore None) update_bad_role spec_world =
       (response_Error 400 ''Invalid role specified'' None, spec_world)
   \<and> AddOrgUserToCurrentOrg (stub_HTTPServer spec_SQLStore None)
         (stub_packages (Inr add_bad_role) (Inr update_bad_role)) (stub_ReqContext 0 0 False)
         spec_world =
       (response_Error 400 ''Invalid role specified'' None, spec_world)
   \<and> UpdateOrgUser_handler (stub_HTTPServer spec_SQLStore None)
         (stub_packages (Inr add_bad_role) (Inr update_bad_role)) (stub_ReqContext 0 0 False)
         spec_world =
       (response_Error 400 ''Invalid role specified'' None, spec_world)
   \<and> calls spec_world = []"
  using C3_invalid_role_no_store_call [of add_bad_role "stub_HTTPServer spec_SQLStore None"
      spec_world update_bad_role "stub_packages (Inr add_bad_role) (Inr update_bad_role)"
      "stub_ReqContext 0 0 False"]
  by (simp add: add_bad_role_def update_bad_role_def IsValid_def stub_packages_def
      spec_world_def)

text \<open>
  Claim C6 as stated (a lookup failure caused by a store or transport error is returned as
  HTTP 500, not 404) fails: here the lookup fails with a connection error, which is not the
  not-found sentinel, and the handler answers 404, not 500.
\<close>

theorem C6_lookup_failure_counterexample:
  "fst (GetUserByLogin
          (SQLStore (stub_HTTPServer
             (stub_SQLStore (Inl (OtherError ''dial tcp: connection refused'')) None (Inr [])
                (Inl ErrUserNotFound) None (Inr False)) None))
          \<lparr>LoginOrEmail = add_LoginOrEmail add_alice\<rparr> (0::nat))
     = Inl (OtherError ''dial tcp: connection refused'')
   \<and> \<not> errors_Is (OtherError ''dial tcp: connection refused'') ErrUserNotFound
   \<and> IsValid (add_Role add_alice)
   \<and> status (fst (addOrgUserHelper
         (stub_HTTPServer
            (stub_SQLStore (Inl (OtherError ''dial tcp: connection refused'')) None (Inr [])
               (Inl ErrUserNotFound) None (Inr False)) None)
         add_alice world0)) = 404
   \<and> status (fst (addOrgUserHelper
         (stub_HTTPServer
            (stub_SQLStore (Inl (OtherError ''dial tcp: connection refused'')) None (Inr [])
               (Inl ErrUserNotFound) None (Inr False)) None)
         add_alice world0)) \<noteq> 500"
  by (simp add: addOrgUserHelper_def store_defs stub_HTTPServer_def stub_SQLStore_def
      add_alice_def world0_def IsValid_def)

text \<open>
  Claim C6, amended: for every add-member request with a valid role, the handler returns
  HTTP 404 ("User not found") exactly when the user lookup returns an error, whatever the
  error is; a lookup that fails because of the store or the transport is answered with 404
  as well, and the error is not passed on. When the lookup succeeds the status is not 404.
\<close>

theorem C6_not_found_on_any_lookup_error:
  assumes "IsValid (add_Role cmd)"
  shows "(\<forall>err d1. GetUserByLogin (SQLStore hs) \<lparr>LoginOrEmail = add_LoginOrEmail cmd\<rparr> (db w)
                     = (Inl err, d1) \<longrightarrow>
            addOrgUserHelper hs cmd w =
              (response_Error 404 ''User not found'' None,
               w\<lparr>db := d1,
                 calls := calls w @ [GetUserByLogin_call \<lparr>LoginOrEmail = add_LoginOrEmail cmd\<rparr>]\<rparr>))
         \<and> (\<forall>u d1. GetUserByLogin (SQLStore hs) \<lparr>LoginOrEmail = add_LoginOrEmail cmd\<rparr> (db w)
                     = (Inr u, d1) \<longrightarrow>
            status (fst (addOrgUserHelper hs cmd w)) \<noteq> 404)"
  using assms
  by (auto simp: addOrgUserHelper_def store_defs Let_def split: prod.splits option.splits)

text \<open>
  The amended claim C6 at a lookup that reports the login absent (404, after the one lookup
  call) and at a lookup that finds the user (not 404).
\<close>

theorem C6_not_found_on_any_lookup_error_witness:
  "IsValid (add_Role add_alice)
   \<and> addOrgUserHelper
         (stub_HTTPServer
            (stub_SQLStore (Inl ErrUserNotFound) None (Inr []) (Inl ErrUserNotFound) None
               (Inr False)) None)
         add_alice world0 =
       (response_Error 404 ''User not found'' None,
        \<lparr>db = 0, calls = [GetUserByLogin_call \<lparr>LoginOrEmail = ''alice''\<rparr>], log = []\<rparr>)
   \<and> status (fst (addOrgUserHelper
         (stub_HTTPServer
            (stub_SQLStore (Inr \<lparr>Id = 3\<rparr>) None (Inr []) (Inl ErrUserNotFound) None
               (Inr False)) None)
         add_alice world0)) \<noteq> 404"
proof -
  have valid: "IsValid (add_Role add_alice)"
    by (simp add: add_alice_def IsValid_def)
  have absent:
    "GetUserByLogin
       (SQLStore (stub_HTTPServer
          (stub_SQLStore (Inl ErrUserNotFound) None (Inr []) (Inl ErrUserNotFound) None
             (Inr False)) None))
       \<lparr>LoginOrEmail = add_LoginOrEmail add_alice\<rparr> (db world0) = (Inl ErrUserNotFound, 0)"
    by (simp add: stub_HTTPServer_def stub_SQLStore_def world0_def)
  have found:
    "GetUserByLogin
       (SQLStore (stub_HTTPServer
          (stub_SQLStore (Inr \<lparr>Id = 3\<rparr>) None (Inr []) (Inl ErrUserNotFound) None
             (Inr False)) None))
       \<lparr>LoginOrEmail = add_LoginOrEmail add_alice\<rparr> (db world0) = (Inr \<lparr>Id = 3\<rparr>, 0)"
    by (simp add: stub_HTTPServer_def stub_SQLStore_def world0_def)
  from C6_not_found_on_any_lookup_error [OF valid, THEN conjunct1, rule_format, OF absent]
  have "addOrgUserHelper
         (stub_HTTPServer
            (stub_SQLStore (Inl ErrUserNotFound) None (Inr []) (Inl ErrUserNotFound) None
               (Inr False)) None)
         add_alice world0 =
       (response_Error 404 ''User not found'' None,
        \<lparr>db = 0, calls = [GetUserByLogin_call \<lparr>LoginOrEmail = ''alice''\<rparr>], log = []\<rparr>)"
    by (simp add: world0_def add_alice_def)
  moreover
  from C6_not_found_on_any_lookup_error [OF valid, THEN conjunct2, rule_format, OF found]
  have "status (fst (addOrgUserHelper
         (stub_HTTPServer
            (stub_SQLStore (Inr \<lparr>Id = 3\<rparr>) None (Inr []) (Inl ErrUserNotFound) None
               (Inr False)) None)
         add_alice world0)) \<noteq> 404" .
  ultimately show ?thesis using valid by simp
qed

subsection \<open>Updating a role and removing a member\<close>

text \<open>
  Claim C2: for every update-role request (with a valid role) and every remove-member
  request whose store call fails, the handler answers HTTP 400 with a descriptive message
  when the error is, or wraps, \<open>ErrLastOrgAdmin\<close>, and HTTP 500 for any other failure; it
  makes that one store call and leaves the database as the store left it. With the store of
  the spec, which rejects the removal or demotion of the last Admin without changing
  anything, a last-admin response leaves the membership unchanged.
\<close>

theorem C2_last_admin_rejected:
  "(IsValid (upd_Role cmd) \<and> UpdateOrgUser (SQLStore hs) cmd (db w) = (Some err, d1) \<longrightarrow>
      updateOrgUserHelper hs cmd w =
        (if errors_Is err ErrLastOrgAdmin
         then response_Error 400
                ''Cannot change role so that there is no organization admin left'' None
         else response_Error 500 ''Failed update org user'' (Some err),
         w\<lparr>db := d1, calls := calls w @ [UpdateOrgUser_call cmd]\<rparr>))
   \<and> (RemoveOrgUser (SQLStore hs) rcmd (db w) = (Inl err, d1) \<longrightarrow>
      removeOrgUserHelper hs rcmd w =
        (if errors_Is err ErrLastOrgAdmin
         then response_Error 400 ''Cannot remove last organization admin'' None
         else response_Error 500 ''Failed to remove user from organization'' (Some err),
         w\<lparr>db := d1, calls := calls w @ [RemoveOrgUser_call rcmd]\<rparr>))
   \<and> (UpdateOrgUser (SQLStore sp) = spec_UpdateOrgUser
        \<and> fst (updateOrgUserHelper sp cmd sw) =
            response_Error 400
              ''Cannot change role so that there is no organization admin left'' None \<longrightarrow>
      db (snd (updateOrgUserHelper sp cmd sw)) = db sw)
   \<and> (RemoveOrgUser (SQLStore sp) = spec_RemoveOrgUser
        \<and> fst (removeOrgUserHelper sp rcmd sw) =
            response_Error 400 ''Cannot remove last organization admin'' None \<longrightarrow>
      db (snd (removeOrgUserHelper sp rcmd sw)) = db sw)"
proof (intro conjI impI)
  assume "IsValid (upd_Role cmd) \<and> UpdateOrgUser (SQLStore hs) cmd (db w) = (Some err, d1)"
  then show "updateOrgUserHelper hs cmd w =
        (if errors_Is err ErrLastOrgAdmin
         then response_Error 400
                ''Cannot change role so that there is no organization admin left'' None
         else response_Error 500 ''Failed update org user'' (Some err),
         w\<lparr>db := d1, calls := calls w @ [UpdateOrgUser_call cmd]\<rparr>)"
    by (simp add: updateOrgUserHelper_def store_UpdateOrgUser_def)
next
  assume "RemoveOrgUser (SQLStore hs) rcmd (db w) = (Inl err, d1)"
  then show "removeOrgUserHelper hs rcmd w =
        (if errors_Is err ErrLastOrgAdmin
         then response_Error 400 ''Cannot remove last organization admin'' None
         else response_Error 500 ''Failed to remove user from organization'' (Some err),
         w\<lparr>db := d1, calls := calls w @ [RemoveOrgUser_call rcmd]\<rparr>)"
    by (simp add: removeOrgUserHelper_def store_RemoveOrgUser_def)
next
  assume "UpdateOrgUser (SQLStore sp) = spec_UpdateOrgUser
        \<and> fst (updateOrgUserHelper sp cmd sw) =
            response_Error 400
              ''Cannot change role so that there is no organization admin left'' None"
  then show "db (snd (updateOrgUserHelper sp cmd sw)) = db sw"
    by (auto simp: updateOrgUserHelper_def store_UpdateOrgUser_def spec_UpdateOrgUser_def
        Let_def split: if_splits prod.splits option.splits)
next
  assume "RemoveOrgUser (SQLStore sp) = spec_RemoveOrgUser
        \<and> fst (removeOrgUserHelper sp rcmd sw) =
            response_Error 400 ''Cannot remove last organization admin'' None"
  then show "db (snd (removeOrgUserHelper sp rcmd sw)) = db sw"
    by (auto simp: removeOrgUserHelper_def store_RemoveOrgUser_def spec_RemoveOrgUser_def
        Let_def split: if_splits prod.splits sum.splits)
qed

text \<open>
  Claim C2 at an organization whose only Admin is user 3: demoting or removing that user is
  answered with 400 and the database is the one before; with a store that fails otherwise,
  the answer is 500.
\<close>

theorem C2_last_admin_rejected_witness:
  "IsValid (upd_Role demote_admin)
   \<and> UpdateOrgUser (SQLStore (stub_HTTPServer spec_SQLStore None)) demote_admin (db spec_world)
       = (Some ErrLastOrgAdmin, specdb0)
   \<and> RemoveOrgUser (SQLStore (stub_HTTPServer spec_SQLStore None)) remove_admin (db spec_world)
       = (Inl ErrLastOrgAdmin, specdb0)
   \<and> updateOrgUserHelper (stub_HTTPServer spec_SQLStore None) demote_admin spec_world =
       (response_Error 400 ''Cannot change role so that there is no organization admin left''
          None,
        \<lparr>db = specdb0, calls = [UpdateOrgUser_call demote_admin], log = []\<rparr>)
   \<and> removeOrgUserHelper (stub_HTTPServer spec_SQLStore None) remove_admin spec_world =
       (response_Error 400 ''Cannot remove last organization admin'' None,
        \<lparr>db = specdb0, calls = [RemoveOrgUser_call remove_admin], log = []\<rparr>)
   \<and> db (snd (updateOrgUserHelper (stub_HTTPServer spec_SQLStore None) demote_admin spec_world))
       = db spec_world
   \<and> db (snd (removeOrgUserHelper (stub_HTTPServer spec_SQLStore None) remove_admin spec_world))
       = db spec_world
   \<and> updateOrgUserHelper
         (stub_HTTPServer
            (stub_SQLStore (Inl ErrUserNotFound) None (Inr []) (Inl ErrUserNotFound)
               (Some (OtherError ''database is locked''))
               (Inl (OtherError ''database is locked''))) None)
         demote_admin world0 =
       (response_Error 500 ''Failed update org user'' (Some (OtherError ''database is locked'')),
        \<lparr>db = 0, calls = [UpdateOrgUser_call demote_admin], log = []\<rparr>)
   \<and> removeOrgUserHelper
         (stub_HTTPServer
            (stub_SQLStore (Inl ErrUserNotFound) None (Inr []) (Inl ErrUserNotFound)
               (Some (OtherError ''database is locked''))
               (Inl (OtherError ''database is locked''))) None)
         remove_admin world0 =
       (response_Error 500 ''Failed to remove user from organization''
          (Some (OtherError ''database is locked'')),
        \<lparr>db = 0, calls = [RemoveOrgUser_call remove_admin], log = []\<rparr>)"
proof -
  have valid: "IsValid (upd_Role demote_admin)"
    by (simp add: demote_admin_def IsValid_def)
  have upd: "UpdateOrgUser (SQLStore (stub_HTTPServer spec_SQLStore None)) demote_admin
               (db spec_world) = (Some ErrLastOrgAdmin, specdb0)"
    by (simp add: stub_HTTPServer_def spec_SQLStore_def stub_SQLStore_def spec_world_def
        spec_UpdateOrgUser_def specdb0_def demote_admin_def has_admin_def)
  have rem: "RemoveOrgUser (SQLStore (stub_HTTPServer spec_SQLStore None)) remove_admin
               (db spec_world) = (Inl ErrLastOrgAdmin, specdb0)"
    by (simp add: stub_HTTPServer_def spec_SQLStore_def stub_SQLStore_def spec_world_def
        spec_RemoveOrgUser_def specdb0_def remove_admin_def has_admin_def)
  have is_spec:
    "UpdateOrgUser (SQLStore (stub_HTTPServer spec_SQLStore None)) = spec_UpdateOrgUser"
    "RemoveOrgUser (SQLStore (stub_HTTPServer spec_SQLStore None)) = spec_RemoveOrgUser"
    by (simp_all add: stub_HTTPServer_def spec_SQLStore_def stub_SQLStore_def)
  note spec_case =
    C2_last_admin_rejected [of demote_admin "stub_HTTPServer spec_SQLStore None" spec_world
      ErrLastOrgAdmin specdb0 remove_admin "stub_HTTPServer spec_SQLStore None" spec_world]
  note other_case =
    C2_last_admin_rejected [of demote_admin
      "stub_HTTPServer
         (stub_SQLStore (Inl ErrUserNotFound) None (Inr []) (Inl ErrUserNotFound)
            (Some (OtherError ''database is locked''))
            (Inl (OtherError ''database is locked''))) None"
      world0 "OtherError ''database is locked''" 0 remove_admin
      "stub_HTTPServer spec_SQLStore None" spec_world]
  have u400: "updateOrgUserHelper (stub_HTTPServer spec_SQLStore None) demote_admin spec_world =
       (response_Error 400 ''Cannot change role so that there is no organization admin left''
          None,
        \<lparr>db = specdb0, calls = [UpdateOrgUser_call demote_admin], log = []\<rparr>)"
    using spec_case valid upd by (simp add: spec_world_def)
  have r400: "removeOrgUserHelper (stub_HTTPServer spec_SQLStore None) remove_admin spec_world =
       (response_Error 400 ''Cannot remove last organization admin'' None,
        \<lparr>db = specdb0, calls = [RemoveOrgUser_call remove_admin], log = []\<rparr>)"
    using spec_case rem by (simp add: spec_world_def)
  have unchanged:
    "db (snd (updateOrgUserHelper (stub_HTTPServer spec_SQLStore None) demote_admin spec_world))
       = db spec_world"
    "db (snd (removeOrgUserHelper (stub_HTTPServer spec_SQLStore None) remove_admin spec_world))
       = db spec_world"
    using spec_case is_spec u400 r400 by simp_all
  have u500: "updateOrgUserHelper
         (stub_HTTPServer
            (stub_SQLStore (Inl ErrUserNotFound) None (Inr []) (Inl ErrUserNotFound)
               (Some (OtherError ''database is locked''))
               (Inl (OtherError ''database is locked''))) None)
         demote_admin world0 =
       (response_Error 500 ''Failed update org user'' (Some (OtherError ''database is locked'')),
        \<lparr>db = 0, calls = [UpdateOrgUser_call demote_admin], log = []\<rparr>)"
    using other_case valid by (simp add: stub_HTTPServer_def stub_SQLStore_def world0_def)
  have r500: "removeOrgUserHelper
         (stub_HTTPServer
            (stub_SQLStore (Inl ErrUserNotFound) None (Inr []) (Inl ErrUserNotFound)
               (Some (OtherError ''database is locked''))
               (Inl (OtherError ''database is locked''))) None)
         remove_admin world0 =
       (response_Error 500 ''Failed to remove user from organization''
          (Some (OtherError ''database is locked'')),
        \<lparr>db = 0, calls = [RemoveOrgUser_call remove_admin], log = []\<rparr>)"
    using other_case by (simp add: stub_HTTPServer_def stub_SQLStore_def world0_def)
  show ?thesis
    using valid upd rem u400 r400 unchanged u500 r500 by simp
qed

text \<open>
  Claim C9: every DELETE /api/org/users/:userId request makes its store call with
  \<open>ShouldDeleteOrphanedUser\<close> true, and every DELETE /api/orgs/:orgId/users/:userId request
  makes it with \<open>ShouldDeleteOrphanedUser\<close> false; with the store of the spec, which deletes
  an account only when the removal asks for it, the explicit-organization endpoint never
  changes the accounts and never answers "User deleted".
\<close>

theorem C9_orphan_cleanup_only_current_org:
  "calls (snd (RemoveOrgUserForCurrentOrg hs c w)) =
     calls w @ [RemoveOrgUser_call
       \<lparr>rm_UserId = ParamsInt64 c '':userId'', rm_OrgId = ctx_OrgId c,
        ShouldDeleteOrphanedUser = True, UserWasDeleted = False\<rparr>]
   \<and> calls (snd (RemoveOrgUser_handler hs c w)) =
     calls w @ [RemoveOrgUser_call
       \<lparr>rm_UserId = ParamsInt64 c '':userId'', rm_OrgId = ParamsInt64 c '':orgId'',
        ShouldDeleteOrphanedUser = False, UserWasDeleted = False\<rparr>]
   \<and> (RemoveOrgUser (SQLStore sp) = spec_RemoveOrgUser \<longrightarrow>
        accounts (db (snd (RemoveOrgUser_handler sp c sw))) = accounts (db sw)
        \<and> fst (RemoveOrgUser_handler sp c sw) \<noteq> response_Success ''User deleted'')"
  by (auto simp: RemoveOrgUserForCurrentOrg_def RemoveOrgUser_handler_def
      removeOrgUserHelper_def store_RemoveOrgUser_def spec_RemoveOrgUser_def Let_def
      split: prod.splits sum.splits if_splits)

text \<open>
  Claim C9 at user 5, whose only membership is organization 1: the explicit-organization
  endpoint unlinks the user and keeps the account, the current-organization endpoint deletes
  the account as well.
\<close>

theorem C9_orphan_cleanup_only_current_org_witness:
  "RemoveOrgUser (SQLStore (stub_HTTPServer spec_SQLStore None)) = spec_RemoveOrgUser
   \<and> RemoveOrgUser_handler (stub_HTTPServer spec_SQLStore None)
        ((stub_ReqContext 0 0 False)\<lparr>ParamsInt64 := (\<lambda>k. if k = '':orgId'' then 1 else 5)\<rparr>)
        spec_world =
       (response_Success ''User removed from organization'',
        \<lparr>db = specdb0\<lparr>memberships := [\<lparr>m_OrgId = 1, m_UserId = 3, m_Role = ''Admin''\<rparr>]\<rparr>,
         calls = [RemoveOrgUser_call
                    \<lparr>rm_UserId = 5, rm_OrgId = 1, ShouldDeleteOrphanedUser = False,
                     UserWasDeleted = False\<rparr>],
         log = []\<rparr>)
   \<and> accounts (db (snd (RemoveOrgUser_handler (stub_HTTPServer spec_SQLStore None)
        ((stub_ReqContext 0 0 False)\<lparr>ParamsInt64 := (\<lambda>k. if k = '':orgId'' then 1 else 5)\<rparr>)
        spec_world))) = [3, 5]
   \<and> RemoveOrgUserForCurrentOrg (stub_HTTPServer spec_SQLStore None)
        ((stub_ReqContext 0 0 False)\<lparr>ParamsInt64 := (\<lambda>k. if k = '':orgId'' then 1 else 5)\<rparr>)
        spec_world =
       (response_Success ''User deleted'',
        \<lparr>db = \<lparr>memberships = [\<lparr>m_OrgId = 1, m_UserId = 3, m_Role = ''Admin''\<rparr>],
                accounts = [3]\<rparr>,
         calls = [RemoveOrgUser_call
                    \<lparr>rm_UserId = 5, rm_OrgId = 1, ShouldDeleteOrphanedUser = True,
                     UserWasDeleted = False\<rparr>],
         log = []\<rparr>)"
proof -
  have is_spec:
    "RemoveOrgUser (SQLStore (stub_HTTPServer spec_SQLStore None)) = spec_RemoveOrgUser"
    by (simp add: stub_HTTPServer_def spec_SQLStore_def stub_SQLStore_def)
  note inst = C9_orphan_cleanup_only_current_org
    [of "stub_HTTPServer spec_SQLStore None"
        "(stub_ReqContext 0 0 False)\<lparr>ParamsInt64 := (\<lambda>k. if k = '':orgId'' then 1 else 5)\<rparr>"
        spec_world "stub_HTTPServer spec_SQLStore None" spec_world]
  have explicit_org: "RemoveOrgUser_handler (stub_HTTPServer spec_SQLStore None)
        ((stub_ReqContext 0 0 False)\<lparr>ParamsInt64 := (\<lambda>k. if k = '':orgId'' then 1 else 5)\<rparr>)
        spec_world =
       (response_Success ''User removed from organization'',
        \<lparr>db = specdb0\<lparr>memberships := [\<lparr>m_OrgId = 1, m_UserId = 3, m_Role = ''Admin''\<rparr>]\<rparr>,
         calls = [RemoveOrgUser_call
                    \<lparr>rm_UserId = 5, rm_OrgId = 1, ShouldDeleteOrphanedUser = False,
                     UserWasDeleted = False\<rparr>],
         log = []\<rparr>)"
    by (simp add: RemoveOrgUser_handler_def removeOrgUserHelper_def store_RemoveOrgUser_def
        stub_HTTPServer_def spec_SQLStore_def stub_SQLStore_def stub_ReqContext_def
        spec_world_def spec_RemoveOrgUser_def specdb0_def has_admin_def)
  have current_org: "RemoveOrgUserForCurrentOrg (stub_HTTPServer spec_SQLStore None)
        ((stub_ReqContext 0 0 False)\<lparr>ParamsInt64 := (\<lambda>k. if k = '':orgId'' then 1 else 5)\<rparr>)
        spec_world =
       (response_Success ''User deleted'',
        \<lparr>db = \<lparr>memberships = [\<lparr>m_OrgId = 1, m_UserId = 3, m_Role = ''Admin''\<rparr>],
                accounts = [3]\<rparr>,
         calls = [RemoveOrgUser_call
                    \<lparr>rm_UserId = 5, rm_OrgId = 1, ShouldDeleteOrphanedUser = True,
                     UserWasDeleted = False\<rparr>],
         log = []\<rparr>)"
    by (simp add: RemoveOrgUserForCurrentOrg_def removeOrgUserHelper_def store_RemoveOrgUser_def
        stub_HTTPServer_def spec_SQLStore_def stub_SQLStore_def stub_ReqContext_def
        spec_world_def spec_RemoveOrgUser_def specdb0_def has_admin_def)
  from inst is_spec
  have "accounts (db (snd (RemoveOrgUser_handler (stub_HTTPServer spec_SQLStore None)
        ((stub_ReqContext 0 0 False)\<lparr>ParamsInt64 := (\<lambda>k. if k = '':orgId'' then 1 else 5)\<rparr>)
        spec_world))) = accounts (db spec_world)"
    by simp
  then have "accounts (db (snd (RemoveOrgUser_handler (stub_HTTPServer spec_SQLStore None)
        ((stub_ReqContext 0 0 False)\<lparr>ParamsInt64 := (\<lambda>k. if k = '':orgId'' then 1 else 5)\<rparr>)
        spec_world))) = [3, 5]"
    by (simp add: spec_world_def specdb0_def)
  with is_spec explicit_org current_org show ?thesis by simp
qed

subsection \<open>Listing and searching members\<close>

text \<open>
  Both loops keep, in order, the users the visibility filter does not hide, each with its
  avatar URL set.
\<close>

lemma getOrgUsers_loop_fst:
  "fst (getOrgUsers_loop hs pk su xs (acc, ids)) =
     acc @ map (with_avatar pk) (filter (visible hs pk su) xs)"
  by (induction xs arbitrary: acc ids) (simp_all add: visible_def with_avatar_def Let_def)

lemma searchOrgUsers_loop_eq:
  "searchOrgUsers_loop hs pk su xs acc =
     acc @ map (with_avatar pk) (filter (visible hs pk su) xs)"
  by (induction xs arbitrary: acc) (simp_all add: visible_def with_avatar_def Let_def)

text \<open>
  Whether the enrichment step fails does not depend on the resource identifiers it is
  given.
\<close>

lemma getUserAccessControlMetadata_error:
  "snd (getUserAccessControlMetadata hs pk c ids) =
   snd (getUserAccessControlMetadata hs pk c ids')"
  by (simp add: getUserAccessControlMetadata_def split: option.splits prod.splits)

lemma lookup_of_AccessControl [simp]:
  "lookup_of (u\<lparr>AccessControl := m\<rparr>) = lookup_of u"
  by (simp add: lookup_of_def)

text \<open>
  \<^verbatim>\<open>getOrgUsersHelper\<close> when the store fails, when it succeeds, and when it succeeds and the
  enrichment step fails.
\<close>

lemma getOrgUsersHelper_Inl:
  assumes "GetOrgUsers (SQLStore hs) q (db w) = (Inl err, d1)"
  shows "getOrgUsersHelper hs pk c q su w =
           (Inl err, w\<lparr>db := d1, calls := calls w @ [GetOrgUsers_call q]\<rparr>)"
  using assms by (simp add: getOrgUsersHelper_def store_GetOrgUsers_def)

lemma getOrgUsersHelper_Inr:
  assumes "GetOrgUsers (SQLStore hs) q (db w) = (Inr rows, d1)"
  shows "\<exists>users w1. getOrgUsersHelper hs pk c q su w = (Inr users, w1)
           \<and> map lookup_of users =
               map (lookup_of \<circ> with_avatar pk) (filter (visible hs pk su) rows)"
proof -
  obtain fu ids where loop: "getOrgUsers_loop hs pk su rows ([], Map.empty) = (fu, ids)"
    by (cases "getOrgUsers_loop hs pk su rows ([], Map.empty)")
  have fu: "fu = map (with_avatar pk) (filter (visible hs pk su) rows)"
    using getOrgUsers_loop_fst [of hs pk su rows "[]" Map.empty] loop by simp
  obtain md e where ac: "getUserAccessControlMetadata hs pk c ids = (md, e)"
    by (cases "getUserAccessControlMetadata hs pk c ids")
  show ?thesis
    using assms loop ac fu
    by (cases e) (simp_all add: getOrgUsersHelper_def store_GetOrgUsers_def o_def)
qed

lemma getOrgUsersHelper_enrichment_fails:
  assumes "GetOrgUsers (SQLStore hs) q (db w) = (Inr rows, d1)"
    and "snd (getUserAccessControlMetadata hs pk c resourceIDs) = Some errAC"
  shows "getOrgUsersHelper hs pk c q su w =
           (Inr (map (with_avatar pk) (filter (visible hs pk su) rows)),
            w\<lparr>db := d1, calls := calls w @ [GetOrgUsers_call q],
              log := log w @ [(''Failed to get access control metadata'', errAC)]\<rparr>)"
proof -
  obtain fu ids where loop: "getOrgUsers_loop hs pk su rows ([], Map.empty) = (fu, ids)"
    by (cases "getOrgUsers_loop hs pk su rows ([], Map.empty)")
  have fu: "fu = map (with_avatar pk) (filter (visible hs pk su) rows)"
    using getOrgUsers_loop_fst [of hs pk su rows "[]" Map.empty] loop by simp
  have "snd (getUserAccessControlMetadata hs pk c ids) = Some errAC"
    using assms(2) getUserAccessControlMetadata_error [of hs pk c ids resourceIDs] by simp
  then obtain md where ac: "getUserAccessControlMetadata hs pk c ids = (md, Some errAC)"
    by (cases "getUserAccessControlMetadata hs pk c ids") simp
  show ?thesis
    using assms(1) loop ac fu
    by (simp add: getOrgUsersHelper_def store_GetOrgUsers_def)
qed

text \<open>
  The store of the examples returns alice and bot; the requester is a plain viewer, and bot
  is a configured hidden login.
\<close>

lemma list_fixture:
  "visible (stub_HTTPServer list_store None) no_bind viewer alice_row"
  "\<not> visible (stub_HTTPServer list_store None) no_bind viewer bot_row"
  "with_avatar no_bind alice_row = alice_row\<lparr>AvatarUrl := ''/avatar/alice@example.org''\<rparr>"
  "lookup_of (alice_row\<lparr>AvatarUrl := ''/avatar/alice@example.org''\<rparr>) =
     \<lparr>lk_UserID = 3, lk_Login = ''alice'', lk_AvatarURL = ''/avatar/alice@example.org''\<rparr>"
  "GetOrgUsers (SQLStore (stub_HTTPServer list_store None)) gq (db world0) =
     (Inr [alice_row, bot_row], 0)"
  "SearchOrgUsers (SQLStore (stub_HTTPServer list_store None)) sq (db world0) =
     (Inr page_of_two, 0)"
  by (simp_all add: visible_def no_bind_def stub_packages_def stub_IsHiddenUser_def
      stub_HTTPServer_def viewer_def alice_row_def bot_row_def with_avatar_def lookup_of_def
      list_store_def stub_SQLStore_def world0_def)

lemma stub_ReqContext_sel:
  "ctx_SignedInUser (stub_ReqContext pp pg ac) = viewer"
  "ctx_OrgId (stub_ReqContext pp pg ac) = 1"
  "Query (stub_ReqContext pp pg ac) ''query'' = []"
  "QueryInt (stub_ReqContext pp pg ac) ''limit'' = 0"
  "QueryInt (stub_ReqContext pp pg ac) ''perpage'' = pp"
  "QueryInt (stub_ReqContext pp pg ac) ''page'' = pg"
  "ParamsInt64 (stub_ReqContext pp pg ac) '':orgId'' = 1"
  by (simp_all add: stub_ReqContext_def)

text \<open>
  Claim C4: for every requester and each of the list, lookup and paged-search endpoints, when
  the store returns its rows the users of the response are exactly the rows that
  \<^verbatim>\<open>dtos.IsHiddenUser\<close> does not hide for the signed-in user and the configuration, in the
  store's order, each with its identifier, its login and its computed avatar URL; and in
  every response, also after a store failure, no user is one that the filter hides.
\<close>

theorem C4_hidden_users_never_listed:
  "(GetOrgUsers (SQLStore hs)
        \<lparr>gq_OrgId = ctx_OrgId c, gq_Query = Query c ''query'', gq_Limit = QueryInt c ''limit''\<rparr>
        (db w) = (Inr rows, d1) \<longrightarrow>
      response_users (fst (GetOrgUsersForCurrentOrg hs pk c w)) =
        map (lookup_of \<circ> with_avatar pk) (filter (visible hs pk (ctx_SignedInUser c)) rows)
      \<and> response_users (fst (GetOrgUsersForCurrentOrgLookup hs pk c w)) =
        map (lookup_of \<circ> with_avatar pk) (filter (visible hs pk (ctx_SignedInUser c)) rows))
   \<and> (GetOrgUsers (SQLStore hs)
        \<lparr>gq_OrgId = ParamsInt64 c '':orgId'', gq_Query = [], gq_Limit = 0\<rparr>
        (db w) = (Inr rows, d1) \<longrightarrow>
      response_users (fst (GetOrgUsers_handler hs pk c w)) =
        map (lookup_of \<circ> with_avatar pk) (filter (visible hs pk (ctx_SignedInUser c)) rows))
   \<and> (SearchOrgUsers (SQLStore hs)
        \<lparr>sq_OrgID = ctx_OrgId c, sq_Query = Query c ''query'',
         sq_Limit = (if sint (QueryInt c ''perpage'') \<le> 0 then 1000 else QueryInt c ''perpage''),
         sq_Page = (if sint (QueryInt c ''page'') < 1 then 1 else QueryInt c ''page'')\<rparr>
        (db w) = (Inr result, d1) \<longrightarrow>
      response_users (fst (SearchOrgUsersWithPaging hs pk c w)) =
        map (lookup_of \<circ> with_avatar pk)
          (filter (visible hs pk (ctx_SignedInUser c)) (OrgUsers result)))
   \<and> (\<forall>x \<in> set (response_users (fst (GetOrgUsersForCurrentOrg hs pk c w)))
           \<union> set (response_users (fst (GetOrgUsersForCurrentOrgLookup hs pk c w)))
           \<union> set (response_users (fst (GetOrgUsers_handler hs pk c w)))
           \<union> set (response_users (fst (SearchOrgUsersWithPaging hs pk c w))).
        \<not> dtos_IsHiddenUser pk (lk_Login x) (ctx_SignedInUser c) (Cfg hs))"
proof -
  let ?su = "ctx_SignedInUser c"
  let ?shown = "\<lambda>rows. map (lookup_of \<circ> with_avatar pk) (filter (visible hs pk ?su) rows)"
  let ?ok = "\<lambda>x. \<not> dtos_IsHiddenUser pk (lk_Login x) ?su (Cfg hs)"
  let ?q1 = "\<lparr>gq_OrgId = ctx_OrgId c, gq_Query = Query c ''query'',
               gq_Limit = QueryInt c ''limit''\<rparr>"
  let ?q2 = "\<lparr>gq_OrgId = ParamsInt64 c '':orgId'', gq_Query = [], gq_Limit = 0\<rparr>"
  let ?q3 = "\<lparr>sq_OrgID = ctx_OrgId c, sq_Query = Query c ''query'',
         sq_Limit = (if sint (QueryInt c ''perpage'') \<le> 0 then 1000 else QueryInt c ''perpage''),
         sq_Page = (if sint (QueryInt c ''page'') < 1 then 1 else QueryInt c ''page'')\<rparr>"
  have shown_ok: "\<forall>x \<in> set (?shown rows). ?ok x" for rows
    by (auto simp: visible_def lookup_of_def with_avatar_def)
  have lookup_map:
    "map (\<lambda>u. \<lparr>lk_UserID = UserId u, lk_Login = Login u, lk_AvatarURL = AvatarUrl u\<rparr>) users
       = map lookup_of users" for users
    by (simp add: lookup_of_def)
  have list1: "response_users (fst (GetOrgUsersForCurrentOrg hs pk c w)) = ?shown rows"
    if "GetOrgUsers (SQLStore hs) ?q1 (db w) = (Inr rows, d)" for rows d
    using getOrgUsersHelper_Inr [OF that, of pk c ?su]
    by (auto simp: GetOrgUsersForCurrentOrg_def)
  have list2: "response_users (fst (GetOrgUsersForCurrentOrgLookup hs pk c w)) = ?shown rows"
    if "GetOrgUsers (SQLStore hs) ?q1 (db w) = (Inr rows, d)" for rows d
    using getOrgUsersHelper_Inr [OF that, of pk c ?su]
    by (auto simp: GetOrgUsersForCurrentOrgLookup_def lookup_map)
  have list3: "response_users (fst (GetOrgUsers_handler hs pk c w)) = ?shown rows"
    if "GetOrgUsers (SQLStore hs) ?q2 (db w) = (Inr rows, d)" for rows d
    using getOrgUsersHelper_Inr [OF that, of pk c ?su]
    by (auto simp: GetOrgUsers_handler_def)
  have search: "response_users (fst (SearchOrgUsersWithPaging hs pk c w)) =
                  ?shown (OrgUsers result)"
    if "SearchOrgUsers (SQLStore hs) ?q3 (db w) = (Inr result, d)" for result d
    using that
    by (simp add: SearchOrgUsersWithPaging_def store_SearchOrgUsers_def Let_def
        searchOrgUsers_loop_eq o_def)
  have none1: "response_users (fst (GetOrgUsersForCurrentOrg hs pk c w)) = []"
    "response_users (fst (GetOrgUsersForCurrentOrgLookup hs pk c w)) = []"
    if "GetOrgUsers (SQLStore hs) ?q1 (db w) = (Inl err, d)" for err d
    using getOrgUsersHelper_Inl [OF that, of pk c ?su]
    by (simp_all add: GetOrgUsersForCurrentOrg_def GetOrgUsersForCurrentOrgLookup_def)
  have none3: "response_users (fst (GetOrgUsers_handler hs pk c w)) = []"
    if "GetOrgUsers (SQLStore hs) ?q2 (db w) = (Inl err, d)" for err d
    using getOrgUsersHelper_Inl [OF that, of pk c ?su]
    by (simp add: GetOrgUsers_handler_def)
  have none4: "response_users (fst (SearchOrgUsersWithPaging hs pk c w)) = []"
    if "SearchOrgUsers (SQLStore hs) ?q3 (db w) = (Inl err, d)" for err d
    using that
    by (simp add: SearchOrgUsersWithPaging_def store_SearchOrgUsers_def Let_def)
  have ok1: "\<forall>x \<in> set (response_users (fst (GetOrgUsersForCurrentOrg hs pk c w))). ?ok x"
    and ok2:
      "\<forall>x \<in> set (response_users (fst (GetOrgUsersForCurrentOrgLookup hs pk c w))). ?ok x"
  proof -
    obtain r d where st: "GetOrgUsers (SQLStore hs) ?q1 (db w) = (r, d)"
      by (cases "GetOrgUsers (SQLStore hs) ?q1 (db w)")
    show "\<forall>x \<in> set (response_users (fst (GetOrgUsersForCurrentOrg hs pk c w))). ?ok x"
    proof (cases r)
      case (Inl err)
      with st none1 show ?thesis by simp
    next
      case (Inr rows)
      with st list1 [of rows d] shown_ok [of rows] show ?thesis by simp
    qed
    show "\<forall>x \<in> set (response_users (fst (GetOrgUsersForCurrentOrgLookup hs pk c w))). ?ok x"
    proof (cases r)
      case (Inl err)
      with st none1 show ?thesis by simp
    next
      case (Inr rows)
      with st list2 [of rows d] shown_ok [of rows] show ?thesis by simp
    qed
  qed
  have ok3: "\<forall>x \<in> set (response_users (fst (GetOrgUsers_handler hs pk c w))). ?ok x"
  proof -
    obtain r d where st: "GetOrgUsers (SQLStore hs) ?q2 (db w) = (r, d)"
      by (cases "GetOrgUsers (SQLStore hs) ?q2 (db w)")
    show ?thesis
    proof (cases r)
      case (Inl err)
      with st none3 show ?thesis by simp
    next
      case (Inr rows)
      with st list3 [of rows d] shown_ok [of rows] show ?thesis by simp
    qed
  qed
  have ok4: "\<forall>x \<in> set (response_users (fst (SearchOrgUsersWithPaging hs pk c w))). ?ok x"
  proof -
    obtain r d where st: "SearchOrgUsers (SQLStore hs) ?q3 (db w) = (r, d)"
      by (cases "SearchOrgUsers (SQLStore hs) ?q3 (db w)")
    show ?thesis
    proof (cases r)
      case (Inl err)
      with st none4 show ?thesis by simp
    next
      case (Inr result)
      with st search [of result d] shown_ok [of "OrgUsers result"] show ?thesis by simp
    qed
  qed
  have hidden:
    "\<forall>x \<in> set (response_users (fst (GetOrgUsersForCurrentOrg hs pk c w)))
           \<union> set (response_users (fst (GetOrgUsersForCurrentOrgLookup hs pk c w)))
           \<union> set (response_users (fst (GetOrgUsers_handler hs pk c w)))
           \<union> set (response_users (fst (SearchOrgUsersWithPaging hs pk c w))). ?ok x"
    using ok1 ok2 ok3 ok4 by blast
  show ?thesis
  proof (intro conjI impI)
    assume st: "GetOrgUsers (SQLStore hs) ?q1 (db w) = (Inr rows, d1)"
    show "response_users (fst (GetOrgUsersForCurrentOrg hs pk c w)) = ?shown rows"
      using list1 [OF st] .
    show "response_users (fst (GetOrgUsersForCurrentOrgLookup hs pk c w)) = ?shown rows"
      using list2 [OF st] .
  next
    assume st: "GetOrgUsers (SQLStore hs) ?q2 (db w) = (Inr rows, d1)"
    show "response_users (fst (GetOrgUsers_handler hs pk c w)) = ?shown rows"
      using list3 [OF st] .
  next
    assume st: "SearchOrgUsers (SQLStore hs) ?q3 (db w) = (Inr result, d1)"
    show "response_users (fst (SearchOrgUsersWithPaging hs pk c w)) = ?shown (OrgUsers result)"
      using search [OF st] .
  next
    show "\<forall>x \<in> set (response_users (fst (GetOrgUsersForCurrentOrg hs pk c w)))
           \<union> set (response_users (fst (GetOrgUsersForCurrentOrgLookup hs pk c w)))
           \<union> set (response_users (fst (GetOrgUsers_handler hs pk c w)))
           \<union> set (response_users (fst (SearchOrgUsersWithPaging hs pk c w))). ?ok x"
      using hidden .
  qed
qed

text \<open>
  Claim C4 at a store that returns alice and the hidden bot: all four endpoints list alice
  and only alice.
\<close>

theorem C4_hidden_users_never_listed_witness:
  "dtos_IsHiddenUser no_bind ''bot'' viewer (Cfg (stub_HTTPServer list_store None))
   \<and> \<not> dtos_IsHiddenUser no_bind ''alice'' viewer (Cfg (stub_HTTPServer list_store None))
   \<and> response_users (fst (GetOrgUsersForCurrentOrg (stub_HTTPServer list_store None) no_bind
        (stub_ReqContext 0 0 False) world0)) =
       [\<lparr>lk_UserID = 3, lk_Login = ''alice'', lk_AvatarURL = ''/avatar/alice@example.org''\<rparr>]
   \<and> response_users (fst (GetOrgUsersForCurrentOrgLookup (stub_HTTPServer list_store None) no_bind
        (stub_ReqContext 0 0 False) world0)) =
       [\<lparr>lk_UserID = 3, lk_Login = ''alice'', lk_AvatarURL = ''/avatar/alice@example.org''\<rparr>]
   \<and> response_users (fst (GetOrgUsers_handler (stub_HTTPServer list_store None) no_bind
        (stub_ReqContext 0 0 False) world0)) =
       [\<lparr>lk_UserID = 3, lk_Login = ''alice'', lk_AvatarURL = ''/avatar/alice@example.org''\<rparr>]
   \<and> response_users (fst (SearchOrgUsersWithPaging (stub_HTTPServer list_store None) no_bind
        (stub_ReqContext 0 0 False) world0)) =
       [\<lparr>lk_UserID = 3, lk_Login = ''alice'', lk_AvatarURL = ''/avatar/alice@example.org''\<rparr>]"
proof -
  have hidden:
    "dtos_IsHiddenUser no_bind ''bot'' viewer (Cfg (stub_HTTPServer list_store None))"
    "\<not> dtos_IsHiddenUser no_bind ''alice'' viewer (Cfg (stub_HTTPServer list_store None))"
    by (simp_all add: no_bind_def stub_packages_def stub_IsHiddenUser_def stub_HTTPServer_def
        viewer_def)
  note inst = C4_hidden_users_never_listed
    [of "stub_HTTPServer list_store None" "stub_ReqContext 0 0 False" world0
        "[alice_row, bot_row]" 0 no_bind page_of_two]
  have "response_users (fst (GetOrgUsersForCurrentOrg (stub_HTTPServer list_store None) no_bind
        (stub_ReqContext 0 0 False) world0)) =
       [\<lparr>lk_UserID = 3, lk_Login = ''alice'', lk_AvatarURL = ''/avatar/alice@example.org''\<rparr>]"
    "response_users (fst (GetOrgUsersForCurrentOrgLookup (stub_HTTPServer list_store None) no_bind
        (stub_ReqContext 0 0 False) world0)) =
       [\<lparr>lk_UserID = 3, lk_Login = ''alice'', lk_AvatarURL = ''/avatar/alice@example.org''\<rparr>]"
    "response_users (fst (GetOrgUsers_handler (stub_HTTPServer list_store None) no_bind
        (stub_ReqContext 0 0 False) world0)) =
       [\<lparr>lk_UserID = 3, lk_Login = ''alice'', lk_AvatarURL = ''/avatar/alice@example.org''\<rparr>]"
    "response_users (fst (SearchOrgUsersWithPaging (stub_HTTPServer list_store None) no_bind
        (stub_ReqContext 0 0 False) world0)) =
       [\<lparr>lk_UserID = 3, lk_Login = ''alice'', lk_AvatarURL = ''/avatar/alice@example.org''\<rparr>]"
    using inst
    by (simp_all add: list_fixture stub_ReqContext_sel page_of_two_def)
  with hidden show ?thesis by simp
qed

text \<open>
  Claim C7: for every list or lookup request whose store call succeeds and whose
  access-control enrichment step fails with an error, the handler logs the error once and
  answers HTTP 200 with the visible users, each with its avatar URL set and otherwise as the
  store returned it: the handler attaches no access-control metadata, and the failure does
  not fail the request.
\<close>

theorem C7_enrichment_failure_swallowed:
  assumes "snd (getUserAccessControlMetadata hs pk c resourceIDs) = Some errAC"
  shows
    "(GetOrgUsers (SQLStore hs)
        \<lparr>gq_OrgId = ctx_OrgId c, gq_Query = Query c ''query'', gq_Limit = QueryInt c ''limit''\<rparr>
        (db w) = (Inr rows, d1) \<longrightarrow>
      GetOrgUsersForCurrentOrg hs pk c w =
        (response_JSON 200 (OrgUserDTOs
           (map (with_avatar pk) (filter (visible hs pk (ctx_SignedInUser c)) rows))),
         w\<lparr>db := d1,
           calls := calls w @ [GetOrgUsers_call
             \<lparr>gq_OrgId = ctx_OrgId c, gq_Query = Query c ''query'',
              gq_Limit = QueryInt c ''limit''\<rparr>],
           log := log w @ [(''Failed to get access control metadata'', errAC)]\<rparr>)
      \<and> GetOrgUsersForCurrentOrgLookup hs pk c w =
        (response_JSON 200 (UserLookupDTOs
           (map (lookup_of \<circ> with_avatar pk) (filter (visible hs pk (ctx_SignedInUser c)) rows))),
         w\<lparr>db := d1,
           calls := calls w @ [GetOrgUsers_call
             \<lparr>gq_OrgId = ctx_OrgId c, gq_Query = Query c ''query'',
              gq_Limit = QueryInt c ''limit''\<rparr>],
           log := log w @ [(''Failed to get access control metadata'', errAC)]\<rparr>))
     \<and> (GetOrgUsers (SQLStore hs)
        \<lparr>gq_OrgId = ParamsInt64 c '':orgId'', gq_Query = [], gq_Limit = 0\<rparr>
        (db w) = (Inr rows, d1) \<longrightarrow>
      GetOrgUsers_handler hs pk c w =
        (response_JSON 200 (OrgUserDTOs
           (map (with_avatar pk) (filter (visible hs pk (ctx_SignedInUser c)) rows))),
         w\<lparr>db := d1,
           calls := calls w @ [GetOrgUsers_call
             \<lparr>gq_OrgId = ParamsInt64 c '':orgId'', gq_Query = [], gq_Limit = 0\<rparr>],
           log := log w @ [(''Failed to get access control metadata'', errAC)]\<rparr>))"
  using getOrgUsersHelper_enrichment_fails [OF _ assms]
  by (simp add: GetOrgUsersForCurrentOrg_def GetOrgUsersForCurrentOrgLookup_def
      GetOrgUsers_handler_def lookup_of_def o_def)

text \<open>
  Claim C7 at an access-control service whose permission lookup fails: the three endpoints
  answer 200 with alice, without metadata, and the log holds the error.
\<close>

theorem C7_enrichment_failure_swallowed_witness:
  "snd (getUserAccessControlMetadata
          (stub_HTTPServer
             (stub_SQLStore (Inl ErrUserNotFound) None (Inr [alice_row, bot_row])
                (Inl ErrUserNotFound) None (Inr False))
             (Some failing_AccessControl))
          no_bind (stub_ReqContext 0 0 True) Map.empty)
     = Some (OtherError ''permission lookup failed'')
   \<and> GetOrgUsersForCurrentOrg
         (stub_HTTPServer
            (stub_SQLStore (Inl ErrUserNotFound) None (Inr [alice_row, bot_row])
               (Inl ErrUserNotFound) None (Inr False))
            (Some failing_AccessControl))
         no_bind (stub_ReqContext 0 0 True) world0 =
       (response_JSON 200 (OrgUserDTOs [alice_row\<lparr>AvatarUrl := ''/avatar/alice@example.org''\<rparr>]),
        \<lparr>db = 0,
         calls = [GetOrgUsers_call \<lparr>gq_OrgId = 1, gq_Query = [], gq_Limit = 0\<rparr>],
         log = [(''Failed to get access control metadata'',
                 OtherError ''permission lookup failed'')]\<rparr>)
   \<and> GetOrgUsersForCurrentOrgLookup
         (stub_HTTPServer
            (stub_SQLStore (Inl ErrUserNotFound) None (Inr [alice_row, bot_row])
               (Inl ErrUserNotFound) None (Inr False))
            (Some failing_AccessControl))
         no_bind (stub_ReqContext 0 0 True) world0 =
       (response_JSON 200 (UserLookupDTOs
          [\<lparr>lk_UserID = 3, lk_Login = ''alice'', lk_AvatarURL = ''/avatar/alice@example.org''\<rparr>]),
        \<lparr>db = 0,
         calls = [GetOrgUsers_call \<lparr>gq_OrgId = 1, gq_Query = [], gq_Limit = 0\<rparr>],
         log = [(''Failed to get access control metadata'',
                 OtherError ''permission lookup failed'')]\<rparr>)
   \<and> GetOrgUsers_handler
         (stub_HTTPServer
            (stub_SQLStore (Inl ErrUserNotFound) None (Inr [alice_row, bot_row])
               (Inl ErrUserNotFound) None (Inr False))
            (Some failing_AccessControl))
         no_bind (stub_ReqContext 0 0 True) world0 =
       (response_JSON 200 (OrgUserDTOs [alice_row\<lparr>AvatarUrl := ''/avatar/alice@example.org''\<rparr>]),
        \<lparr>db = 0,
         calls = [GetOrgUsers_call \<lparr>gq_OrgId = 1, gq_Query = [], gq_Limit = 0\<rparr>],
         log = [(''Failed to get access control metadata'',
                 OtherError ''permission lookup failed'')]\<rparr>)"
proof -
  let ?hs = "stub_HTTPServer
            (stub_SQLStore (Inl ErrUserNotFound) None (Inr [alice_row, bot_row])
               (Inl ErrUserNotFound) None (Inr False))
            (Some failing_AccessControl)"
  let ?c = "stub_ReqContext 0 0 True"
  have fails:
    "snd (getUserAccessControlMetadata ?hs no_bind ?c Map.empty)
       = Some (OtherError ''permission lookup failed'')"
    by (simp add: getUserAccessControlMetadata_def stub_HTTPServer_def failing_AccessControl_def
        stub_ReqContext_def)
  have vis: "visible ?hs no_bind viewer alice_row" "\<not> visible ?hs no_bind viewer bot_row"
    by (simp_all add: visible_def no_bind_def stub_packages_def stub_IsHiddenUser_def
        stub_HTTPServer_def viewer_def alice_row_def bot_row_def)
  have avatar: "with_avatar no_bind alice_row =
                  alice_row\<lparr>AvatarUrl := ''/avatar/alice@example.org''\<rparr>"
    by (simp add: with_avatar_def no_bind_def stub_packages_def alice_row_def)
  have look: "lookup_of (alice_row\<lparr>AvatarUrl := ''/avatar/alice@example.org''\<rparr>) =
      \<lparr>lk_UserID = 3, lk_Login = ''alice'', lk_AvatarURL = ''/avatar/alice@example.org''\<rparr>"
    by (simp add: lookup_of_def alice_row_def)
  have ctx: "ctx_SignedInUser ?c = viewer" "ctx_OrgId ?c = 1" "Query ?c ''query'' = []"
    "QueryInt ?c ''limit'' = 0" "ParamsInt64 ?c '':orgId'' = 1"
    by (simp_all add: stub_ReqContext_def)
  have store:
    "GetOrgUsers (SQLStore ?hs) q (db world0) = (Inr [alice_row, bot_row], 0)" for q
    by (simp add: stub_HTTPServer_def stub_SQLStore_def world0_def)
  note inst = C7_enrichment_failure_swallowed [OF fails, of world0 "[alice_row, bot_row]" 0]
  have answers:
    "GetOrgUsersForCurrentOrg ?hs no_bind ?c world0 =
       (response_JSON 200 (OrgUserDTOs [alice_row\<lparr>AvatarUrl := ''/avatar/alice@example.org''\<rparr>]),
        world0\<lparr>db := 0,
          calls := calls world0 @ [GetOrgUsers_call \<lparr>gq_OrgId = 1, gq_Query = [], gq_Limit = 0\<rparr>],
          log := log world0 @ [(''Failed to get access control metadata'',
                 OtherError ''permission lookup failed'')]\<rparr>)"
    "GetOrgUsersForCurrentOrgLookup ?hs no_bind ?c world0 =
       (response_JSON 200 (UserLookupDTOs
          [\<lparr>lk_UserID = 3, lk_Login = ''alice'', lk_AvatarURL = ''/avatar/alice@example.org''\<rparr>]),
        world0\<lparr>db := 0,
          calls := calls world0 @ [GetOrgUsers_call \<lparr>gq_OrgId = 1, gq_Query = [], gq_Limit = 0\<rparr>],
          log := log world0 @ [(''Failed to get access control metadata'',
                 OtherError ''permission lookup failed'')]\<rparr>)"
    "GetOrgUsers_handler ?hs no_bind ?c world0 =
       (response_JSON 200 (OrgUserDTOs [alice_row\<lparr>AvatarUrl := ''/avatar/alice@example.org''\<rparr>]),
        world0\<lparr>db := 0,
          calls := calls world0 @ [GetOrgUsers_call \<lparr>gq_OrgId = 1, gq_Query = [], gq_Limit = 0\<rparr>],
          log := log world0 @ [(''Failed to get access control metadata'',
                 OtherError ''permission lookup failed'')]\<rparr>)"
    using inst by (simp_all add: store ctx vis avatar look)
  show ?thesis
    using fails answers by (simp add: world0_def)
qed

text \<open>
  Claim C5: for every paged-search request, the store is queried once, with the limit 1000
  when \<^verbatim>\<open>perpage\<close> is at most 0 and with \<^verbatim>\<open>perpage\<close> itself otherwise, and with the page 1
  when \<^verbatim>\<open>page\<close> is below 1 and with \<^verbatim>\<open>page\<close> itself otherwise; when the store answers, the
  envelope of the response carries exactly these two values as \<open>PerPage\<close> and \<open>Page\<close>.
\<close>

theorem C5_effective_paging:
  "calls (snd (SearchOrgUsersWithPaging hs pk c w)) =
     calls w @ [SearchOrgUsers_call
       \<lparr>sq_OrgID = ctx_OrgId c, sq_Query = Query c ''query'',
        sq_Limit = (if sint (QueryInt c ''perpage'') \<le> 0 then 1000 else QueryInt c ''perpage''),
        sq_Page = (if sint (QueryInt c ''page'') < 1 then 1 else QueryInt c ''page'')\<rparr>]
   \<and> (SearchOrgUsers (SQLStore hs)
        \<lparr>sq_OrgID = ctx_OrgId c, sq_Query = Query c ''query'',
         sq_Limit = (if sint (QueryInt c ''perpage'') \<le> 0 then 1000 else QueryInt c ''perpage''),
         sq_Page = (if sint (QueryInt c ''page'') < 1 then 1 else QueryInt c ''page'')\<rparr>
        (db w) = (Inr result, d1) \<longrightarrow>
      fst (SearchOrgUsersWithPaging hs pk c w) =
        response_JSON 200 (SearchResult
          (result\<lparr>OrgUsers := map (with_avatar pk)
                                (filter (visible hs pk (ctx_SignedInUser c)) (OrgUsers result)),
                  Page := (if sint (QueryInt c ''page'') < 1 then 1 else QueryInt c ''page''),
                  PerPage := (if sint (QueryInt c ''perpage'') \<le> 0 then 1000
                              else QueryInt c ''perpage'')\<rparr>)))"
proof (intro conjI impI)
  show "calls (snd (SearchOrgUsersWithPaging hs pk c w)) =
     calls w @ [SearchOrgUsers_call
       \<lparr>sq_OrgID = ctx_OrgId c, sq_Query = Query c ''query'',
        sq_Limit = (if sint (QueryInt c ''perpage'') \<le> 0 then 1000 else QueryInt c ''perpage''),
        sq_Page = (if sint (QueryInt c ''page'') < 1 then 1 else QueryInt c ''page'')\<rparr>]"
    by (simp add: SearchOrgUsersWithPaging_def store_SearchOrgUsers_def Let_def
        split: prod.splits sum.splits)
next
  assume "SearchOrgUsers (SQLStore hs)
        \<lparr>sq_OrgID = ctx_OrgId c, sq_Query = Query c ''query'',
         sq_Limit = (if sint (QueryInt c ''perpage'') \<le> 0 then 1000 else QueryInt c ''perpage''),
         sq_Page = (if sint (QueryInt c ''page'') < 1 then 1 else QueryInt c ''page'')\<rparr>
        (db w) = (Inr result, d1)"
  then show "fst (SearchOrgUsersWithPaging hs pk c w) =
        response_JSON 200 (SearchResult
          (result\<lparr>OrgUsers := map (with_avatar pk)
                                (filter (visible hs pk (ctx_SignedInUser c)) (OrgUsers result)),
                  Page := (if sint (QueryInt c ''page'') < 1 then 1 else QueryInt c ''page''),
                  PerPage := (if sint (QueryInt c ''perpage'') \<le> 0 then 1000
                              else QueryInt c ''perpage'')\<rparr>))"
    by (simp add: SearchOrgUsersWithPaging_def store_SearchOrgUsers_def Let_def
        searchOrgUsers_loop_eq)
qed

text \<open>
  Claim C5 at \<^verbatim>\<open>perpage=0&page=0\<close> and at negative values (limit 1000, page 1), and at
  \<^verbatim>\<open>perpage=25&page=3\<close> (passed through).
\<close>

theorem C5_effective_paging_witness:
  "calls (snd (SearchOrgUsersWithPaging (stub_HTTPServer list_store None) no_bind
      (stub_ReqContext 0 0 False) world0)) =
     [SearchOrgUsers_call \<lparr>sq_OrgID = 1, sq_Query = [], sq_Limit = 1000, sq_Page = 1\<rparr>]
   \<and> fst (SearchOrgUsersWithPaging (stub_HTTPServer list_store None) no_bind
      (stub_ReqContext 0 0 False) world0) =
     response_JSON 200 (SearchResult
       \<lparr>TotalCount = 2, OrgUsers = [alice_row\<lparr>AvatarUrl := ''/avatar/alice@example.org''\<rparr>],
        Page = 1, PerPage = 1000\<rparr>)
   \<and> calls (snd (SearchOrgUsersWithPaging (stub_HTTPServer list_store None) no_bind
      (stub_ReqContext (- 5) (- 1) False) world0)) =
     [SearchOrgUsers_call \<lparr>sq_OrgID = 1, sq_Query = [], sq_Limit = 1000, sq_Page = 1\<rparr>]
   \<and> calls (snd (SearchOrgUsersWithPaging (stub_HTTPServer list_store None) no_bind
      (stub_ReqContext 25 3 False) world0)) =
     [SearchOrgUsers_call \<lparr>sq_OrgID = 1, sq_Query = [], sq_Limit = 25, sq_Page = 3\<rparr>]
   \<and> fst (SearchOrgUsersWithPaging (stub_HTTPServer list_store None) no_bind
      (stub_ReqContext 25 3 False) world0) =
     response_JSON 200 (SearchResult
       \<lparr>TotalCount = 2, OrgUsers = [alice_row\<lparr>AvatarUrl := ''/avatar/alice@example.org''\<rparr>],
        Page = 3, PerPage = 25\<rparr>)"
proof -
  have w0: "calls world0 = []"
    by (simp add: world0_def)
  note zero = C5_effective_paging
    [of "stub_HTTPServer list_store None" no_bind "stub_ReqContext 0 0 False" world0
        page_of_two 0]
  note negative = C5_effective_paging
    [of "stub_HTTPServer list_store None" no_bind "stub_ReqContext (- 5) (- 1) False" world0
        page_of_two 0]
  note in_range = C5_effective_paging
    [of "stub_HTTPServer list_store None" no_bind "stub_ReqContext 25 3 False" world0
        page_of_two 0]
  have "calls (snd (SearchOrgUsersWithPaging (stub_HTTPServer list_store None) no_bind
      (stub_ReqContext 0 0 False) world0)) =
     [SearchOrgUsers_call \<lparr>sq_OrgID = 1, sq_Query = [], sq_Limit = 1000, sq_Page = 1\<rparr>]"
    "fst (SearchOrgUsersWithPaging (stub_HTTPServer list_store None) no_bind
      (stub_ReqContext 0 0 False) world0) =
     response_JSON 200 (SearchResult
       \<lparr>TotalCount = 2, OrgUsers = [alice_row\<lparr>AvatarUrl := ''/avatar/alice@example.org''\<rparr>],
        Page = 1, PerPage = 1000\<rparr>)"
    using zero by (simp_all add: list_fixture stub_ReqContext_sel page_of_two_def w0)
  moreover
  have "calls (snd (SearchOrgUsersWithPaging (stub_HTTPServer list_store None) no_bind
      (stub_ReqContext (- 5) (- 1) False) world0)) =
     [SearchOrgUsers_call \<lparr>sq_OrgID = 1, sq_Query = [], sq_Limit = 1000, sq_Page = 1\<rparr>]"
    using negative by (simp add: list_fixture stub_ReqContext_sel page_of_two_def w0)
  moreover
  have "calls (snd (SearchOrgUsersWithPaging (stub_HTTPServer list_store None) no_bind
      (stub_ReqContext 25 3 False) world0)) =
     [SearchOrgUsers_call \<lparr>sq_OrgID = 1, sq_Query = [], sq_Limit = 25, sq_Page = 3\<rparr>]"
    "fst (SearchOrgUsersWithPaging (stub_HTTPServer list_store None) no_bind
      (stub_ReqContext 25 3 False) world0) =
     response_JSON 200 (SearchResult
       \<lparr>TotalCount = 2, OrgUsers = [alice_row\<lparr>AvatarUrl := ''/avatar/alice@example.org''\<rparr>],
        Page = 3, PerPage = 25\<rparr>)"
    using in_range by (simp_all add: list_fixture stub_ReqContext_sel page_of_two_def w0)
  ultimately show ?thesis by simp
qed

subsection \<open>The users table\<close>

text \<open>
  The handlers of a row's confirmation modal: confirming reports exactly one
  \<^verbatim>\<open>onRemoveUser\<close> with the row's user and keeps the state; dismissing reports nothing and
  sets \<^verbatim>\<open>showRemoveModal\<close> to false, which closes the modal of a user with a non-empty
  login.
\<close>

lemma UsersTable_confirm_and_dismiss:
  assumes "row_remove (render_row ctx s u) = Some cell"
  shows "ConfirmModal_onConfirm cell s = (s, [onRemoveUser u])"
    and "ConfirmModal_onDismiss cell s = (False, [])"
    and "login u \<noteq> [] \<Longrightarrow>
           \<not> modal_open (render_row ctx (fst (ConfirmModal_onDismiss cell s)) u)"
  using assms
  by (auto simp: render_row_def modal_open_def Boolean_def split: if_splits)

text \<open>
  Claim C8 on a list with one user whose login is empty: the modal of that row is open in the
  initial state, confirming it reports \<^verbatim>\<open>onRemoveUser\<close> once with that user, dismissing it
  reports nothing and sets the state to false, and after the dismissal the modal is still
  rendered open, because \<^verbatim>\<open>Boolean(user.login) === showRemoveModal\<close> holds of an empty
  login and a false state.
\<close>

theorem C8_dismiss_leaves_prompt_open:
  "hasPermissionInMetadata allow_all OrgUsersRemove nameless
   \<and> map modal_open (UsersTable allow_all [nameless] False) = [True]
   \<and> ConfirmModal_onConfirm (the (row_remove (render_row allow_all False nameless))) False
       = (False, [onRemoveUser nameless])
   \<and> ConfirmModal_onDismiss (the (row_remove (render_row allow_all False nameless))) False
       = (False, [])
   \<and> map modal_open
         (UsersTable allow_all [nameless]
            (fst (ConfirmModal_onDismiss (the (row_remove (render_row allow_all False nameless)))
                    False)))
       = [True]"
  by (simp add: UsersTable_def render_row_def modal_open_def Boolean_def allow_all_def
      nameless_def)

text \<open>
  Claim C10: the rows share the one flag \<^verbatim>\<open>showRemoveModal\<close>. When it is true, the
  confirmation modal is rendered open for exactly the listed users for which the viewer has
  the remove permission and whose login is not empty, all at once; and a click on the delete
  button of any row with a non-empty login makes it true, so the modals of all those rows
  open, not only the one of the row that was clicked.
\<close>

theorem C10_shared_flag_opens_every_modal:
  "map modal_open (UsersTable ctx users True) =
     map (\<lambda>u. hasPermissionInMetadata ctx OrgUsersRemove u \<and> login u \<noteq> []) users
   \<and> (row_remove (render_row ctx s u) = Some cell \<and> login u \<noteq> [] \<longrightarrow>
        Button_onClick cell s = (True, [])
        \<and> map modal_open (UsersTable ctx users (fst (Button_onClick cell s))) =
            map (\<lambda>v. hasPermissionInMetadata ctx OrgUsersRemove v \<and> login v \<noteq> []) users)"
proof -
  have open_all: "map modal_open (UsersTable ctx users True) =
     map (\<lambda>u. hasPermissionInMetadata ctx OrgUsersRemove u \<and> login u \<noteq> []) users"
    by (simp add: UsersTable_def render_row_def modal_open_def Boolean_def)
  have click: "Button_onClick cell s = (True, [])"
    if "row_remove (render_row ctx s u) = Some cell" "login u \<noteq> []"
    using that by (auto simp: render_row_def Boolean_def split: if_splits)
  show ?thesis
    using open_all click by simp
qed

text \<open>
  Claim C10 at the list of alice, bob and a user without login: a click on alice's delete
  button sets the flag, and then the modals naming alice and bob are both open.
\<close>

theorem C10_shared_flag_opens_every_modal_witness:
  "row_remove (render_row allow_all False alice) \<noteq> None \<and> login alice \<noteq> []
   \<and> map modal_open (UsersTable allow_all [alice, bob, nameless] False) = [False, False, True]
   \<and> Button_onClick (the (row_remove (render_row allow_all False alice))) False = (True, [])
   \<and> map modal_open (UsersTable allow_all [alice, bob, nameless] True) = [True, True, False]
   \<and> map (ConfirmModal_body \<circ> the \<circ> row_remove) (UsersTable allow_all [alice, bob] True) =
       [''Are you sure you want to delete user alice?'',
        ''Are you sure you want to delete user bob?'']"
proof -
  have cell: "row_remove (render_row allow_all False alice) =
                Some (the (row_remove (render_row allow_all False alice)))"
    by (simp add: render_row_def allow_all_def)
  have name: "login alice \<noteq> []"
    by (simp add: alice_def)
  note inst = C10_shared_flag_opens_every_modal
    [of allow_all "[alice, bob, nameless]" False alice
        "the (row_remove (render_row allow_all False alice))"]
  have "map modal_open (UsersTable allow_all [alice, bob, nameless] True) = [True, True, False]"
    using inst by (simp add: allow_all_def alice_def bob_def nameless_def)
  moreover
  have "Button_onClick (the (row_remove (render_row allow_all False alice))) False = (True, [])"
    using inst cell name by simp
  moreover
  have "map modal_open (UsersTable allow_all [alice, bob, nameless] False) = [False, False, True]"
    by (simp add: UsersTable_def render_row_def modal_open_def Boolean_def allow_all_def
        alice_def bob_def nameless_def)
  moreover
  have "map (ConfirmModal_body \<circ> the \<circ> row_remove) (UsersTable allow_all [alice, bob] True) =
       [''Are you sure you want to delete user alice?'',
        ''Are you sure you want to delete user bob?'']"
    by (simp add: UsersTable_def render_row_def allow_all_def alice_def bob_def)
  moreover
  have "row_remove (render_row allow_all False alice) \<noteq> None"
    by (simp add: render_row_def allow_all_def)
  ultimately show ?thesis
    using name by simp
qed

end
